theory Spec2Isabelle
  imports Complex_Main
begin

section \<open>JavaScript values\<close>

text \<open>
  A request body is parsed JSON, so a destructured field is absent (\<open>undefined\<close>), \<open>null\<close>, or
  a value. The registration routes are modelled at the declared shape of their body: the
  string fields carry strings and \<open>role\<close> carries an integer, namely the number the JSON
  parser produced for it. Route parameters (\<open>req.params\<close>) are always strings.
\<close>

datatype 'a jsfield = Undefined | Null | Value 'a

text \<open>A JavaScript number: a double is NaN, an infinity, or a finite value.\<close>

datatype jsnumber = NaN | NegInfinity | Finite real | PosInfinity

text \<open>An arbitrary JSON-like value, for the routes that test a body field only for truthiness.\<close>

datatype jsval =
    JUndefined
  | JNull
  | JBool bool
  | JNumber jsnumber
  | JString string
  | JArray "jsval list"
  | JObject "(string \<times> jsval) list"

text \<open>\<open>!n\<close> is true for \<open>NaN\<close> and for zero.\<close>

fun number_truthy :: "jsnumber \<Rightarrow> bool" where
  "number_truthy NaN = False"
| "number_truthy (Finite r) = (r \<noteq> 0)"
| "number_truthy NegInfinity = True"
| "number_truthy PosInfinity = True"

text \<open>\<open>n <= 0\<close>: every comparison with \<open>NaN\<close> is false.\<close>

fun number_le_zero :: "jsnumber \<Rightarrow> bool" where
  "number_le_zero NaN = False"
| "number_le_zero (Finite r) = (r \<le> 0)"
| "number_le_zero NegInfinity = True"
| "number_le_zero PosInfinity = False"

fun truthy :: "jsval \<Rightarrow> bool" where
  "truthy JUndefined = False"
| "truthy JNull = False"
| "truthy (JBool b) = b"
| "truthy (JNumber n) = number_truthy n"
| "truthy (JString s) = (s \<noteq> [])"
| "truthy (JArray xs) = True"
| "truthy (JObject kvs) = True"

fun field_truthy :: "string jsfield \<Rightarrow> bool" where
  "field_truthy Undefined = False"
| "field_truthy Null = False"
| "field_truthy (Value s) = (s \<noteq> [])"

text \<open>\<open>err.message || fallback\<close> on strings: the empty string is falsy.\<close>

definition or_default :: "string \<Rightarrow> string \<Rightarrow> string" where
  "or_default m d = (if m = [] then d else m)"

text \<open>\<open>x ?? d\<close>: only \<open>undefined\<close> and \<open>null\<close> give the default.\<close>

fun nullish_default :: "jsval \<Rightarrow> jsval \<Rightarrow> jsval" where
  "nullish_default JUndefined d = d"
| "nullish_default JNull d = d"
| "nullish_default v d = v"

section \<open>The relational store (server.ts, MODELS)\<close>

text \<open>
  \<open>User.init\<close> and \<open>PPBRecord.init\<close> declare the two tables. Every column is
  \<open>allowNull: false\<close>; \<open>walletAddress\<close> and \<open>licenseNumber\<close> (of \<open>PPBRecord\<close>) are
  \<open>unique\<close>; \<open>id\<close> is an auto-incremented primary key, kept here as a counter per table
  that is never reused.
\<close>

record user_row =
  uid :: nat
  name :: string
  email :: string
  role :: int
  walletAddress :: string
  licenseNumber :: string
  status :: string

record ppb_row =
  ppb_id :: nat
  ppb_name :: string
  ppb_email :: string
  ppb_licenseNumber :: string
  ppb_role :: int

record store =
  users :: "user_row list"
  users_seq :: nat
  ppb :: "ppb_row list"
  ppb_seq :: nat

definition empty_store :: store where
  "empty_store = \<lparr>users = [], users_seq = 0, ppb = [], ppb_seq = 0\<rparr>"

text \<open>
  What the ORM throws: a not-null validation error naming the model and the null attributes,
  a unique-constraint error, and the query generator's error for a \<open>where\<close> value that
  is \<open>undefined\<close>.
\<close>

datatype db_error =
    NotNullViolation string "string list"
  | UniqueViolation string
  | WhereUndefined string

fun join_lines :: "string list \<Rightarrow> string" where
  "join_lines [] = []"
| "join_lines [x] = x"
| "join_lines (x # y # ys) = x @ [CHR '','', CHR 0x0A] @ join_lines (y # ys)"

fun db_message :: "db_error \<Rightarrow> string" where
  "db_message (NotNullViolation m fs) =
     join_lines (map (\<lambda>f. ''notNull Violation: '' @ m @ ''.'' @ f @ '' cannot be null'') fs)"
| "db_message (UniqueViolation f) = ''Validation error''"
| "db_message (WhereUndefined k) =
     ''WHERE parameter '' @ [CHR 0x22] @ k @ [CHR 0x22] @ '' has invalid ''
       @ [CHR 0x22] @ ''undefined'' @ [CHR 0x22] @ '' value''"

text \<open>
  \<open>User.findOne({ where: { walletAddress, status } })\<close>: the first row that matches. An
  \<open>undefined\<close> where-value throws, \<open>null\<close> matches no row of a not-null column. The status
  filter is optional (\<open>None\<close> when the where clause has only the wallet).
\<close>

definition User_findOne :: "string jsfield \<Rightarrow> string option \<Rightarrow> store \<Rightarrow> db_error + user_row option" where
  "User_findOne w st s =
     (case w of
        Undefined \<Rightarrow> Inl (WhereUndefined ''walletAddress'')
      | Null \<Rightarrow> Inr None
      | Value a \<Rightarrow>
          Inr (find (\<lambda>r. walletAddress r = a \<and> (case st of None \<Rightarrow> True | Some x \<Rightarrow> status r = x))
                 (users s)))"

definition User_findAll :: "string \<Rightarrow> store \<Rightarrow> user_row list" where
  "User_findAll st s = filter (\<lambda>r. status r = st) (users s)"

definition PPBRecord_findOne :: "string jsfield \<Rightarrow> store \<Rightarrow> db_error + ppb_row option" where
  "PPBRecord_findOne l s =
     (case l of
        Undefined \<Rightarrow> Inl (WhereUndefined ''licenseNumber'')
      | Null \<Rightarrow> Inr None
      | Value a \<Rightarrow> Inr (find (\<lambda>r. ppb_licenseNumber r = a) (ppb s)))"

definition PPBRecord_count :: "store \<Rightarrow> nat" where
  "PPBRecord_count s = length (ppb s)"

text \<open>The attributes handed to \<open>User.create\<close>, as the request carried them.\<close>

record user_attrs =
  a_name :: "string jsfield"
  a_email :: "string jsfield"
  a_role :: "int jsfield"
  a_walletAddress :: "string jsfield"
  a_licenseNumber :: "string jsfield"
  a_status :: "string jsfield"

fun is_nullish :: "'a jsfield \<Rightarrow> bool" where
  "is_nullish (Value v) = False"
| "is_nullish Undefined = True"
| "is_nullish Null = True"

definition null_attrs :: "user_attrs \<Rightarrow> string list" where
  "null_attrs a =
     (if is_nullish (a_name a) then [''name''] else [])
   @ (if is_nullish (a_email a) then [''email''] else [])
   @ (if is_nullish (a_role a) then [''role''] else [])
   @ (if is_nullish (a_walletAddress a) then [''walletAddress''] else [])
   @ (if is_nullish (a_licenseNumber a) then [''licenseNumber''] else [])
   @ (if is_nullish (a_status a) then [''status''] else [])"

text \<open>
  \<open>User.create\<close>: validation of \<open>allowNull: false\<close>, then the insert, which the unique
  index on \<open>walletAddress\<close> can refuse. The new row takes the next id.
\<close>

definition User_create :: "user_attrs \<Rightarrow> store \<Rightarrow> db_error + store" where
  "User_create a s =
     (case (a_name a, a_email a, a_role a, a_walletAddress a, a_licenseNumber a, a_status a) of
        (Value n, Value e, Value r, Value w, Value l, Value t) \<Rightarrow>
          if w \<in> set (map walletAddress (users s)) then Inl (UniqueViolation ''walletAddress'')
          else Inr (s\<lparr>users := users s @
                        [\<lparr>uid = Suc (users_seq s), name = n, email = e, role = r,
                          walletAddress = w, licenseNumber = l, status = t\<rparr>],
                      users_seq := Suc (users_seq s)\<rparr>)
      | _ \<Rightarrow> Inl (NotNullViolation ''User'' (null_attrs a)))"

text \<open>\<open>user.save()\<close> after \<open>user.status = ...\<close>: an update of the changed column by primary key.\<close>

definition user_save :: "user_row \<Rightarrow> store \<Rightarrow> store" where
  "user_save u s =
     s\<lparr>users := map (\<lambda>r. if uid r = uid u then r\<lparr>status := status u\<rparr> else r) (users s)\<rparr>"

text \<open>\<open>user.destroy()\<close>: a delete by primary key.\<close>

definition user_destroy :: "user_row \<Rightarrow> store \<Rightarrow> store" where
  "user_destroy u s = s\<lparr>users := filter (\<lambda>r. uid r \<noteq> uid u) (users s)\<rparr>"

section \<open>Responses and external calls\<close>

datatype body =
    MessageBody string
  | ErrorBody string
  | SuccessBody string
  | UserBody user_row
  | ListBody "user_row list"
  | StatusBody string
  | TxHashBody string
  | ProductBody string jsval string string

record response =
  code :: nat
  payload :: body

text \<open>
  The calls that leave the process, in the order they are made: a contract method with its
  arguments, the wait on the returned transaction, the pinning upload, the QR rendering.
\<close>

datatype effect =
    ContractCall string "jsval list"
  | TxWait
  | PinFile jsval
  | QRCodeToDataURL string

text \<open>
  What the chain does with one write: the call itself throws (with a message), or it returns a
  transaction (with a hash) whose \<open>wait()\<close> throws or confirms.
\<close>

datatype tx_outcome =
    CallThrows string
  | WaitThrows string string
  | Mined string

record result =
  resp :: response
  db :: store
  trace :: "effect list"

definition reply :: "nat \<Rightarrow> body \<Rightarrow> store \<Rightarrow> effect list \<Rightarrow> result" where
  "reply c b s t = \<lparr>resp = \<lparr>code = c, payload = b\<rparr>, db = s, trace = t\<rparr>"

section \<open>Helpers (server.ts)\<close>

text \<open>
  \<open>ethers.isAddress\<close> is a library function, taken as a parameter; \<open>None\<close> stands for a throw,
  which \<open>isValidAddress\<close> turns into \<open>false\<close>.
\<close>

definition isValidAddress :: "(string \<Rightarrow> bool option) \<Rightarrow> string \<Rightarrow> bool" where
  "isValidAddress isAddress a = (case isAddress a of Some b \<Rightarrow> b | None \<Rightarrow> False)"

section \<open>Registration routes (server.ts)\<close>

record signup_body =
  req_name :: "string jsfield"
  req_email :: "string jsfield"
  req_role :: "int jsfield"
  req_walletAddress :: "string jsfield"
  req_licenseNumber :: "string jsfield"

text \<open>\<open>POST /signup\<close>\<close>

definition post_signup :: "signup_body \<Rightarrow> store \<Rightarrow> result" where
  "post_signup b s =
     (if \<not> field_truthy (req_walletAddress b) then
        reply 400 (MessageBody ''Wallet address required'') s []
      else
        case User_findOne (req_walletAddress b) None s of
          Inl e \<Rightarrow> reply 500 (ErrorBody (or_default (db_message e) ''Internal Server Error'')) s []
        | Inr (Some existingUser) \<Rightarrow>
            reply 400 (MessageBody ''User already registered locally. Please log in.'') s []
        | Inr None \<Rightarrow>
            (case PPBRecord_findOne (req_licenseNumber b) s of
               Inl e \<Rightarrow> reply 500 (ErrorBody (or_default (db_message e) ''Internal Server Error'')) s []
             | Inr None \<Rightarrow> reply 400 (MessageBody ''License number not found in PPB database'') s []
             | Inr (Some licenseExists) \<Rightarrow>
                 (case User_create
                         \<lparr>a_name = req_name b, a_email = req_email b, a_role = req_role b,
                          a_walletAddress = req_walletAddress b,
                          a_licenseNumber = req_licenseNumber b,
                          a_status = Value ''pending''\<rparr> s of
                    Inl e \<Rightarrow>
                      reply 500 (ErrorBody (or_default (db_message e) ''Internal Server Error'')) s []
                  | Inr s' \<Rightarrow>
                      reply 200 (SuccessBody ''Registration pending verification by admin'') s' [])))"

text \<open>\<open>POST /login\<close>\<close>

definition post_login :: "string jsfield \<Rightarrow> store \<Rightarrow> result" where
  "post_login w s =
     (case User_findOne w (Some ''approved'') s of
        Inl e \<Rightarrow> reply 500 (ErrorBody ''Login failed'') s []
      | Inr None \<Rightarrow> reply 404 (ErrorBody ''User not found or not approved'') s []
      | Inr (Some user) \<Rightarrow> reply 200 (UserBody user) s [])"

text \<open>\<open>GET /pending-requests\<close>\<close>

definition get_pending_requests :: "store \<Rightarrow> result" where
  "get_pending_requests s = reply 200 (ListBody (User_findAll ''pending'' s)) s []"

text \<open>\<open>POST /approve-request/:wallet\<close>, under the given outcome of the chain write.\<close>

definition post_approve_request :: "tx_outcome \<Rightarrow> string \<Rightarrow> store \<Rightarrow> result" where
  "post_approve_request chain w s =
     (case User_findOne (Value w) (Some ''pending'') s of
        Inl e \<Rightarrow> reply 500 (ErrorBody (or_default (db_message e) ''Failed to approve user'')) s []
      | Inr None \<Rightarrow> reply 404 (ErrorBody ''User not found or already processed'') s []
      | Inr (Some user) \<Rightarrow>
          (let call = ContractCall ''registerUser''
                        [JString (walletAddress user), JString (name user),
                         JNumber (Finite (of_int (role user)))]
           in case chain of
                CallThrows m \<Rightarrow>
                  reply 500 (ErrorBody (or_default m ''Failed to approve user'')) s [call]
              | WaitThrows h m \<Rightarrow>
                  reply 500 (ErrorBody (or_default m ''Failed to approve user'')) s [call, TxWait]
              | Mined h \<Rightarrow>
                  reply 200 (SuccessBody ''User approved and registered on chain'')
                    (user_save (user\<lparr>status := ''approved''\<rparr>) s) [call, TxWait]))"

text \<open>\<open>POST /reject-request/:wallet\<close>\<close>

definition post_reject_request :: "string \<Rightarrow> store \<Rightarrow> result" where
  "post_reject_request w s =
     (case User_findOne (Value w) (Some ''pending'') s of
        Inl e \<Rightarrow> reply 500 (ErrorBody ''Failed to reject user'') s []
      | Inr None \<Rightarrow> reply 404 (ErrorBody ''User not found or already processed'') s []
      | Inr (Some user) \<Rightarrow>
          reply 200 (SuccessBody ''User registration rejected'') (user_destroy user s) [])"

text \<open>\<open>GET /api/user-status/:wallet\<close>\<close>

definition get_user_status :: "string \<Rightarrow> store \<Rightarrow> result" where
  "get_user_status w s =
     (case User_findOne (Value w) None s of
        Inl e \<Rightarrow> reply 500 (ErrorBody ''Failed to check user status'') s []
      | Inr None \<Rightarrow> reply 404 (StatusBody ''not_found'') s []
      | Inr (Some user) \<Rightarrow> reply 200 (StatusBody (status user)) s [])"

section \<open>Batch routes\<close>

text \<open>
  \<open>POST /revoke-batch/:id\<close> (server.ts). \<open>Number\<close> is the language's conversion of the route
  parameter to a number, taken as a parameter; \<open>reason\<close> is the body's field.
\<close>

definition post_revoke_batch_id ::
    "(string \<Rightarrow> jsnumber) \<Rightarrow> tx_outcome \<Rightarrow> string \<Rightarrow> jsval \<Rightarrow> response \<times> effect list" where
  "post_revoke_batch_id Number chain batchIdRaw body_reason =
     (let reason = nullish_default body_reason (JString ''Revoked by admin'');
          batchId = Number batchIdRaw
      in if \<not> number_truthy batchId \<or> number_le_zero batchId then
           (\<lparr>code = 400, payload = ErrorBody ''Invalid batch id''\<rparr>, [])
         else
           (let call = ContractCall ''revokeBatch'' [JNumber batchId, reason]
            in case chain of
                 CallThrows m \<Rightarrow>
                   (\<lparr>code = 500, payload = ErrorBody (or_default m ''Failed to revoke batch'')\<rparr>,
                    [call])
               | WaitThrows h m \<Rightarrow>
                   (\<lparr>code = 500, payload = ErrorBody (or_default m ''Failed to revoke batch'')\<rparr>,
                    [call, TxWait])
               | Mined h \<Rightarrow>
                   (\<lparr>code = 200, payload = SuccessBody ''Batch revoked on chain''\<rparr>,
                    [call, TxWait])))"

text \<open>
  \<open>POST /revoke-batch\<close> (the backend with the pinning helper): \<open>batchId\<close> is the body's field,
  tested for truthiness only.
\<close>

definition post_revoke_batch :: "tx_outcome \<Rightarrow> jsval \<Rightarrow> response \<times> effect list" where
  "post_revoke_batch chain batchId =
     (if \<not> truthy batchId then (\<lparr>code = 400, payload = ErrorBody ''Missing batchId''\<rparr>, [])
      else
        (let call = ContractCall ''revokeBatch'' [batchId]
         in case chain of
              CallThrows m \<Rightarrow> (\<lparr>code = 500, payload = ErrorBody m\<rparr>, [call])
            | WaitThrows h m \<Rightarrow> (\<lparr>code = 500, payload = ErrorBody m\<rparr>, [call, TxWait])
            | Mined h \<Rightarrow> (\<lparr>code = 200, payload = TxHashBody h\<rparr>, [call, TxWait])))"

text \<open>
  \<open>uploadToIPFS\<close>: the upload either throws (the helper logs and rethrows) or returns
  \<open>response.data\<close>. The outcome of the HTTP request is the parameter \<open>pin\<close>.
\<close>

definition uploadToIPFS :: "(string + jsval) \<Rightarrow> jsval \<Rightarrow> (string + jsval) \<times> effect list" where
  "uploadToIPFS pin product =
     (case pin of
        Inl m \<Rightarrow> (Inl m, [PinFile product])
      | Inr data \<Rightarrow> (Inr data, [PinFile product]))"

text \<open>
  Reading a property: a \<open>TypeError\<close> on \<open>undefined\<close> and \<open>null\<close>, the member of an object,
  \<open>undefined\<close> on anything else.
\<close>

fun get_prop :: "jsval \<Rightarrow> string \<Rightarrow> string + jsval" where
  "get_prop JUndefined k =
     Inl (''Cannot read properties of undefined (reading '' @ [CHR 0x27] @ k @ [CHR 0x27] @ '')'')"
| "get_prop JNull k =
     Inl (''Cannot read properties of null (reading '' @ [CHR 0x27] @ k @ [CHR 0x27] @ '')'')"
| "get_prop (JObject kvs) k = Inr (case map_of kvs k of None \<Rightarrow> JUndefined | Some v \<Rightarrow> v)"
| "get_prop v k = Inr JUndefined"

text \<open>
  The surroundings of \<open>POST /register-product\<close>: the outcomes of the upload and of the chain
  write, the QR renderer (\<open>Inl\<close> a thrown message), the environment variable
  \<open>FRONTEND_URL\<close>, and the language's conversion of a value to a string inside a template.
\<close>

record product_env =
  pin :: "string + jsval"
  chain :: tx_outcome
  toDataURL :: "string \<Rightarrow> string + string"
  FRONTEND_URL :: "string option"
  ToString :: "jsval \<Rightarrow> string"

definition verifyUrl :: "product_env \<Rightarrow> jsval \<Rightarrow> string" where
  "verifyUrl env batchId =
     (case FRONTEND_URL env of None \<Rightarrow> ''undefined'' | Some u \<Rightarrow> u)
       @ ''/verify/'' @ ToString env batchId"

definition register_on_chain ::
    "product_env \<Rightarrow> jsval \<Rightarrow> jsval \<Rightarrow> jsval \<Rightarrow> effect list \<Rightarrow> response \<times> effect list" where
  "register_on_chain env name' batchId ipfsHash t =
     (let call = ContractCall ''registerProduct'' [name', batchId, ipfsHash]
      in case chain env of
           CallThrows m \<Rightarrow> (\<lparr>code = 500, payload = ErrorBody m\<rparr>, t @ [call])
         | WaitThrows h m \<Rightarrow> (\<lparr>code = 500, payload = ErrorBody m\<rparr>, t @ [call, TxWait])
         | Mined h \<Rightarrow>
             (let url = verifyUrl env batchId;
                  t' = t @ [call, TxWait, QRCodeToDataURL url]
              in case toDataURL env url of
                   Inl m \<Rightarrow> (\<lparr>code = 500, payload = ErrorBody m\<rparr>, t')
                 | Inr qrCodeData \<Rightarrow>
                     (\<lparr>code = 200, payload = ProductBody h ipfsHash url qrCodeData\<rparr>, t')))"

text \<open>\<open>POST /register-product\<close> (the backend with the pinning helper).\<close>

definition post_register_product ::
    "product_env \<Rightarrow> jsval \<Rightarrow> jsval \<Rightarrow> jsval \<Rightarrow> response \<times> effect list" where
  "post_register_product env name' batchId details =
     (if \<not> truthy name' \<or> \<not> truthy batchId \<or> \<not> truthy details then
        (\<lparr>code = 400, payload = ErrorBody ''Missing fields: name, batchId, details''\<rparr>, [])
      else
        case uploadToIPFS (pin env) details of
          (Inl m, t) \<Rightarrow> (\<lparr>code = 500, payload = ErrorBody m\<rparr>, t)
        | (Inr ipfsResponse, t) \<Rightarrow>
            (case get_prop ipfsResponse ''IpfsHash'' of
               Inl m \<Rightarrow> (\<lparr>code = 500, payload = ErrorBody m\<rparr>, t)
             | Inr ipfsHash \<Rightarrow> register_on_chain env name' batchId ipfsHash t))"

fun is_contract_call :: "effect \<Rightarrow> bool" where
  "is_contract_call (ContractCall m args) = True"
| "is_contract_call e = False"

definition contract_calls :: "effect list \<Rightarrow> effect list" where
  "contract_calls t = filter is_contract_call t"

section \<open>Server start (server.ts)\<close>

text \<open>A number inside a template literal: the decimal digits of a non-negative integer.\<close>

definition digit_char :: "nat \<Rightarrow> char" where
  "digit_char d = ''0123456789'' ! d"

function string_of_nat :: "nat \<Rightarrow> string" where
  "string_of_nat n =
     (if n < 10 then [digit_char n] else string_of_nat (n div 10) @ [digit_char (n mod 10)])"
  by pat_completeness auto
termination
  by (relation "measure id") auto

declare string_of_nat.simps [simp del]

record ppb_attrs =
  s_name :: string
  s_email :: string
  s_licenseNumber :: string
  s_role :: int

definition sample_entry :: "nat \<Rightarrow> ppb_attrs" where
  "sample_entry i =
     \<lparr>s_name = ''Verified Entity '' @ string_of_nat i,
      s_email = ''verified'' @ string_of_nat i @ ''@example.com'',
      s_licenseNumber = ''PPB-'' @ string_of_nat (1000 + i),
      s_role = ((int i - 1) mod 3) + 1\<rparr>"

text \<open>\<open>for (let i = 1; i <= 20; i++) sample.push(...)\<close>\<close>

function seed_loop :: "nat \<Rightarrow> ppb_attrs list \<Rightarrow> ppb_attrs list" where
  "seed_loop i sample =
     (if i \<le> 20 then seed_loop (i + 1) (sample @ [sample_entry i]) else sample)"
  by pat_completeness auto
termination
  by (relation "measure (\<lambda>(i, sample). 21 - i)") auto

declare seed_loop.simps [simp del]

text \<open>
  \<open>PPBRecord.bulkCreate\<close>: one insert statement; the unique index on \<open>licenseNumber\<close> refuses
  the whole statement, otherwise the rows take consecutive ids.
\<close>

fun insert_ppb :: "ppb_attrs list \<Rightarrow> store \<Rightarrow> store" where
  "insert_ppb [] s = s"
| "insert_ppb (a # as) s =
     insert_ppb as
       (s\<lparr>ppb := ppb s @
             [\<lparr>ppb_id = Suc (ppb_seq s), ppb_name = s_name a, ppb_email = s_email a,
               ppb_licenseNumber = s_licenseNumber a, ppb_role = s_role a\<rparr>],
          ppb_seq := Suc (ppb_seq s)\<rparr>)"

definition PPBRecord_bulkCreate :: "ppb_attrs list \<Rightarrow> store \<Rightarrow> db_error + store" where
  "PPBRecord_bulkCreate as s =
     (if distinct (map s_licenseNumber as @ map ppb_licenseNumber (ppb s))
      then Inr (insert_ppb as s)
      else Inl (UniqueViolation ''licenseNumber''))"

text \<open>
  The start-up block: seed the registry when it is empty, then listen. \<open>Inl\<close> is the
  \<open>process.exit(1)\<close> of the catch.
\<close>

definition start_server :: "store \<Rightarrow> db_error + store" where
  "start_server s =
     (if PPBRecord_count s = 0 then PPBRecord_bulkCreate (seed_loop 1 []) s else Inr s)"

section \<open>Invariant of the user table\<close>

text \<open>
  What the unique index, the primary key and the presence check of \<open>POST /signup\<close> maintain:
  wallet addresses are pairwise different and non-empty, ids are pairwise different and
  at most the counter.
\<close>

definition store_inv :: "store \<Rightarrow> bool" where
  "store_inv s \<longleftrightarrow>
     distinct (map walletAddress (users s)) \<and> distinct (map uid (users s))
     \<and> list_all (\<lambda>r. walletAddress r \<noteq> [] \<and> uid r \<le> users_seq s) (users s)"

text \<open>
  The stores the server can be in: it starts on the empty file, and the only routes that
  write to it are signup, approve and reject.
\<close>

inductive reachable :: "store \<Rightarrow> bool" where
  initial: "reachable empty_store"
| started: "reachable s \<Longrightarrow> start_server s = Inr s' \<Longrightarrow> reachable s'"
| signed_up: "reachable s \<Longrightarrow> reachable (db (post_signup b s))"
| approved: "reachable s \<Longrightarrow> reachable (db (post_approve_request c w s))"
| rejected: "reachable s \<Longrightarrow> reachable (db (post_reject_request w s))"

text \<open>The attributes \<open>POST /signup\<close> hands to \<open>User.create\<close>, named for the statements below.\<close>

definition attrs_of :: "signup_body \<Rightarrow> user_attrs" where
  "attrs_of b = \<lparr>a_name = req_name b, a_email = req_email b, a_role = req_role b,
                          a_walletAddress = req_walletAddress b,
                          a_licenseNumber = req_licenseNumber b,
                          a_status = Value ''pending''\<rparr>"

text \<open>The license numbers the specification names for the seeded registry.\<close>

definition seeded_licenses :: "string list" where
  "seeded_licenses =
     [''PPB-1001'', ''PPB-1002'', ''PPB-1003'', ''PPB-1004'', ''PPB-1005'',
      ''PPB-1006'', ''PPB-1007'', ''PPB-1008'', ''PPB-1009'', ''PPB-1010'',
      ''PPB-1011'', ''PPB-1012'', ''PPB-1013'', ''PPB-1014'', ''PPB-1015'',
      ''PPB-1016'', ''PPB-1017'', ''PPB-1018'', ''PPB-1019'', ''PPB-1020'']"

section \<open>Example stores\<close>

text \<open>A two-entry registry and one signed-up user, pending and approved.\<close>

definition acme :: user_row where
  "acme = \<lparr>uid = 1, name = ''Acme Pharma'', email = ''a@x.com'', role = 1,
            walletAddress = ''0xABC'', licenseNumber = ''PPB-1001'', status = ''pending''\<rparr>"

definition registry :: "ppb_row list" where
  "registry =
     [\<lparr>ppb_id = 1, ppb_name = ''Verified Entity 1'', ppb_email = ''verified1@example.com'',
       ppb_licenseNumber = ''PPB-1001'', ppb_role = 1\<rparr>,
      \<lparr>ppb_id = 2, ppb_name = ''Verified Entity 2'', ppb_email = ''verified2@example.com'',
       ppb_licenseNumber = ''PPB-1002'', ppb_role = 2\<rparr>]"

definition pending_store :: store where
  "pending_store = \<lparr>users = [acme], users_seq = 1, ppb = registry, ppb_seq = 2\<rparr>"

definition approved_store :: store where
  "approved_store =
     \<lparr>users = [acme\<lparr>status := ''approved''\<rparr>], users_seq = 1, ppb = registry, ppb_seq = 2\<rparr>"

text \<open>Surroundings in which the pinning service refuses the upload.\<close>

definition pinata_down :: product_env where
  "pinata_down =
     \<lparr>pin = Inl ''Request failed with status code 401'',
      chain = Mined ''0x77'',
      toDataURL = (\<lambda>u. Inr (''data:image/png;base64,'' @ u)),
      FRONTEND_URL = Some ''http://localhost:3000'',
      ToString = (\<lambda>v. case v of JString x \<Rightarrow> x | _ \<Rightarrow> [])\<rparr>"

text \<open>
  Surroundings in which the pinning service accepts the upload and answers with an object
  that has no \<open>IpfsHash\<close> member, under a given outcome of the chain write.
\<close>

definition pinata_no_hash :: "tx_outcome \<Rightarrow> product_env" where
  "pinata_no_hash c =
     \<lparr>pin = Inr (JObject []),
      chain = c,
      toDataURL = (\<lambda>u. Inr (''data:image/png;base64,'' @ u)),
      FRONTEND_URL = Some ''http://localhost:3000'',
      ToString = (\<lambda>v. case v of JString x \<Rightarrow> x | _ \<Rightarrow> [])\<rparr>"

section \<open>Positive batch ids\<close>

text \<open>
  The specification's reading of the check on a batch id: the number is positive. \<open>NaN\<close>,
  zero, the negative numbers and \<open>-Infinity\<close> are not.
\<close>

fun positive_number :: "jsnumber \<Rightarrow> bool" where
  "positive_number (Finite r) = (0 < r)"
| "positive_number PosInfinity = True"
| "positive_number NaN = False"
| "positive_number NegInfinity = False"

section \<open>Facts about the queries and the invariant\<close>

lemma find_wallet_unique:
  assumes "distinct (map walletAddress us)" "r \<in> set us"
  shows "find (\<lambda>x. walletAddress x = walletAddress r \<and> P x) us = (if P r then Some r else None)"
  using assms
proof (induction us)
  case Nil
  then show ?case by simp
next
  case (Cons a us)
  show ?case
  proof (cases "a = r")
    case True
    with Cons.prems have "walletAddress r \<notin> walletAddress ` set us" by simp
    then have "\<forall>x\<in>set us. walletAddress x \<noteq> walletAddress r" by (metis imageI)
    then have "find (\<lambda>x. walletAddress x = walletAddress r \<and> P x) us = None"
      by (auto simp: find_None_iff)
    with True show ?thesis by simp
  next
    case False
    with Cons.prems have "r \<in> set us" "walletAddress a \<noteq> walletAddress r" by auto
    with Cons show ?thesis by simp
  qed
qed

lemma find_wallet_absent:
  "w \<notin> walletAddress ` set us \<Longrightarrow> find (\<lambda>x. walletAddress x = w \<and> P x) us = None"
  by (auto simp: find_None_iff)

lemma findOne_row:
  assumes "store_inv s" "r \<in> set (users s)"
  shows "User_findOne (Value (walletAddress r)) st s =
           Inr (if (case st of None \<Rightarrow> True | Some x \<Rightarrow> status r = x) then Some r else None)"
  using assms find_wallet_unique [of "users s" r "\<lambda>x. case st of None \<Rightarrow> True | Some v \<Rightarrow> status x = v"]
  by (simp add: User_findOne_def store_inv_def)

lemma findOne_absent:
  "w \<notin> walletAddress ` set (users s) \<Longrightarrow> User_findOne (Value w) st s = Inr None"
  by (simp add: User_findOne_def find_wallet_absent)

lemma findOne_Some:
  "User_findOne w st s = Inr (Some r) \<Longrightarrow>
     r \<in> set (users s) \<and> w = Value (walletAddress r) \<and> (\<forall>x. st = Some x \<longrightarrow> status r = x)"
  by (auto simp: User_findOne_def find_Some_iff split: jsfield.splits option.splits)

lemma findOne_None:
  "User_findOne (Value w) st s = Inr None \<Longrightarrow> r \<in> set (users s) \<Longrightarrow> walletAddress r = w \<Longrightarrow>
     \<exists>x. st = Some x \<and> status r \<noteq> x"
  by (auto simp: User_findOne_def find_None_iff split: option.splits)

lemma row_wallet_nonempty:
  "store_inv s \<Longrightarrow> r \<in> set (users s) \<Longrightarrow> walletAddress r \<noteq> []"
  by (auto simp: store_inv_def list_all_iff)

lemma map_status_update:
  "map walletAddress (map (\<lambda>r. if P r then r\<lparr>status := v\<rparr> else r) us) = map walletAddress us"
  "map uid (map (\<lambda>r. if P r then r\<lparr>status := v\<rparr> else r) us) = map uid us"
  by (induction us) auto

lemma user_save_inv: "store_inv s \<Longrightarrow> store_inv (user_save u s)"
  unfolding store_inv_def user_save_def
  by (auto simp: map_status_update list_all_iff simp del: map_map)

lemma user_destroy_inv: "store_inv s \<Longrightarrow> store_inv (user_destroy u s)"
  unfolding store_inv_def user_destroy_def
  by (simp add: distinct_map_filter list_all_iff)

lemma User_create_values:
  "User_create \<lparr>a_name = Value n, a_email = Value e, a_role = Value ro, a_walletAddress = Value w,
                a_licenseNumber = Value l, a_status = Value t\<rparr> s =
     (if w \<in> walletAddress ` set (users s) then Inl (UniqueViolation ''walletAddress'')
      else Inr (s\<lparr>users := users s @
                    [\<lparr>uid = Suc (users_seq s), name = n, email = e, role = ro,
                      walletAddress = w, licenseNumber = l, status = t\<rparr>],
                  users_seq := Suc (users_seq s)\<rparr>))"
  by (simp add: User_create_def)

lemma User_create_null:
  "is_nullish (a_name a) \<or> is_nullish (a_email a) \<or> is_nullish (a_role a) \<Longrightarrow>
     User_create a s = Inl (NotNullViolation ''User'' (null_attrs a))"
  by (auto simp: User_create_def split: jsfield.splits)

lemma User_create_Inr:
  assumes "User_create a s = Inr s'"
  shows "\<exists>n e ro w l t. a_walletAddress a = Value w \<and> w \<notin> walletAddress ` set (users s) \<and>
           s' = s\<lparr>users := users s @
                    [\<lparr>uid = Suc (users_seq s), name = n, email = e, role = ro,
                      walletAddress = w, licenseNumber = l, status = t\<rparr>],
                  users_seq := Suc (users_seq s)\<rparr>"
  using assms by (fastforce simp: User_create_def split: jsfield.splits if_splits)

lemma append_row_inv:
  assumes "store_inv s" "w \<noteq> []" "w \<notin> walletAddress ` set (users s)"
  shows "store_inv (s\<lparr>users := users s @
                    [\<lparr>uid = Suc (users_seq s), name = n, email = e, role = ro,
                      walletAddress = w, licenseNumber = l, status = t\<rparr>],
                  users_seq := Suc (users_seq s)\<rparr>)"
proof -
  from assms(1) have "\<forall>r\<in>set (users s). uid r \<le> users_seq s"
    by (simp add: store_inv_def list_all_iff)
  then have "Suc (users_seq s) \<notin> uid ` set (users s)" by force
  with assms show ?thesis
    by (auto simp: store_inv_def list_all_iff)
qed

lemma signup_inv: "store_inv s \<Longrightarrow> store_inv (db (post_signup b s))"
proof (cases "\<exists>s'. User_create \<lparr>a_name = req_name b, a_email = req_email b, a_role = req_role b,
                          a_walletAddress = req_walletAddress b,
                          a_licenseNumber = req_licenseNumber b,
                          a_status = Value ''pending''\<rparr> s = Inr s' \<and> field_truthy (req_walletAddress b)")
  case True
  assume inv: "store_inv s"
  from True obtain s' where c: "User_create \<lparr>a_name = req_name b, a_email = req_email b, a_role = req_role b,
                          a_walletAddress = req_walletAddress b,
                          a_licenseNumber = req_licenseNumber b,
                          a_status = Value ''pending''\<rparr> s = Inr s'" and t: "field_truthy (req_walletAddress b)" by blast
  from User_create_Inr [OF c] obtain n e ro w l t' where
    w: "req_walletAddress b = Value w" "w \<notin> walletAddress ` set (users s)" and
    s': "s' = s\<lparr>users := users s @
                    [\<lparr>uid = Suc (users_seq s), name = n, email = e, role = ro,
                      walletAddress = w, licenseNumber = l, status = t'\<rparr>],
                  users_seq := Suc (users_seq s)\<rparr>" by auto
  from t w have "w \<noteq> []" by simp
  with inv w s' have "store_inv s'" using append_row_inv by blast
  with inv c show ?thesis
    by (simp add: post_signup_def reply_def split: sum.splits option.splits)
next
  case False
  assume inv: "store_inv s"
  with False show ?thesis
    by (auto simp: post_signup_def reply_def split: sum.splits option.splits)
qed

lemma approve_inv: "store_inv s \<Longrightarrow> store_inv (db (post_approve_request c w s))"
  by (auto simp: post_approve_request_def reply_def Let_def user_save_inv
           split: sum.splits option.splits tx_outcome.splits)

lemma reject_inv: "store_inv s \<Longrightarrow> store_inv (db (post_reject_request w s))"
  by (auto simp: post_reject_request_def reply_def user_destroy_inv
           split: sum.splits option.splits)

lemma empty_store_inv: "store_inv empty_store"
  by (simp add: store_inv_def empty_store_def)

lemma pending_store_inv: "store_inv pending_store"
  by (simp add: store_inv_def pending_store_def acme_def)

lemma approved_store_inv: "store_inv approved_store"
  by (simp add: store_inv_def approved_store_def acme_def)

section \<open>Approval and the chain write\<close>

text \<open>
  C1. Approve is atomic with respect to the chain write: for a wallet with a pending row, when
  \<open>registerUser\<close> throws or the wait on its transaction throws, the response is an error
  (500 with the thrown message, or the fallback text), the store is the one before the
  request, and the status read afterwards is still \<open>pending\<close>.
\<close>

theorem approve_chain_failure_keeps_pending:
  assumes "store_inv s" and "r \<in> set (users s)" and "status r = ''pending''"
    and "c = CallThrows m \<or> c = WaitThrows h m"
  shows "resp (post_approve_request c (walletAddress r) s)
           = \<lparr>code = 500, payload = ErrorBody (or_default m ''Failed to approve user'')\<rparr>
         \<and> db (post_approve_request c (walletAddress r) s) = s
         \<and> resp (get_user_status (walletAddress r) (db (post_approve_request c (walletAddress r) s)))
           = \<lparr>code = 200, payload = StatusBody ''pending''\<rparr>"
proof -
  from assms(1-3) have f: "User_findOne (Value (walletAddress r)) (Some ''pending'') s = Inr (Some r)"
    by (simp add: findOne_row)
  from assms(1,2) have g: "User_findOne (Value (walletAddress r)) None s = Inr (Some r)"
    by (simp add: findOne_row)
  from assms(4) f have a: "resp (post_approve_request c (walletAddress r) s)
           = \<lparr>code = 500, payload = ErrorBody (or_default m ''Failed to approve user'')\<rparr>"
    and b: "db (post_approve_request c (walletAddress r) s) = s"
    by (auto simp: post_approve_request_def reply_def Let_def)
  from g assms(3) have "resp (get_user_status (walletAddress r) s)
           = \<lparr>code = 200, payload = StatusBody ''pending''\<rparr>"
    by (simp add: get_user_status_def reply_def)
  with a b show ?thesis by simp
qed

theorem approve_chain_failure_keeps_pending_witness:
  "resp (post_approve_request (WaitThrows ''0x51'' ''transaction failed'') ''0xABC'' pending_store)
     = \<lparr>code = 500, payload = ErrorBody ''transaction failed''\<rparr>
   \<and> db (post_approve_request (WaitThrows ''0x51'' ''transaction failed'') ''0xABC'' pending_store)
     = pending_store
   \<and> resp (get_user_status ''0xABC''
        (db (post_approve_request (WaitThrows ''0x51'' ''transaction failed'') ''0xABC'' pending_store)))
     = \<lparr>code = 200, payload = StatusBody ''pending''\<rparr>"
proof -
  have 1: "acme \<in> set (users pending_store)" by (simp add: pending_store_def)
  have 2: "status acme = ''pending''" by (simp add: acme_def)
  have 3: "walletAddress acme = ''0xABC''" by (simp add: acme_def)
  have 4: "or_default ''transaction failed'' ''Failed to approve user'' = ''transaction failed''"
    by (simp add: or_default_def)
  have 5: "WaitThrows ''0x51'' ''transaction failed'' = CallThrows ''transaction failed''
           \<or> WaitThrows ''0x51'' ''transaction failed'' = WaitThrows ''0x51'' ''transaction failed''"
    by simp
  show ?thesis
    by (rule approve_chain_failure_keeps_pending [OF pending_store_inv 1 2 5, unfolded 3 4])
qed

section \<open>Signup\<close>

text \<open>
  C3. Signup rejects a wallet that already has a row, whatever the row's status and whatever
  the other fields of the request are: the response is the 400 of the duplicate check and the
  store and the chain are untouched.
\<close>

theorem signup_existing_wallet_conflict:
  assumes "store_inv s" and "r \<in> set (users s)"
    and "req_walletAddress b = Value (walletAddress r)"
  shows "post_signup b s
           = reply 400 (MessageBody ''User already registered locally. Please log in.'') s []"
proof -
  from assms(1,2) have "walletAddress r \<noteq> []" by (rule row_wallet_nonempty)
  with assms(3) have t: "field_truthy (req_walletAddress b)" by simp
  from assms have "User_findOne (req_walletAddress b) None s = Inr (Some r)"
    by (simp add: findOne_row)
  with t show ?thesis by (simp add: post_signup_def)
qed

theorem signup_existing_wallet_conflict_witness:
  "post_signup \<lparr>req_name = Value ''Other Name'', req_email = Value ''other@x.com'',
                 req_role = Value 2, req_walletAddress = Value ''0xABC'',
                 req_licenseNumber = Value ''PPB-1002''\<rparr> approved_store
     = reply 400 (MessageBody ''User already registered locally. Please log in.'') approved_store []"
proof -
  have 1: "acme\<lparr>status := ''approved''\<rparr> \<in> set (users approved_store)"
    by (simp add: approved_store_def)
  show ?thesis
    by (rule signup_existing_wallet_conflict [OF approved_store_inv 1]) (simp add: acme_def)
qed

section \<open>More facts about approval and rejection\<close>

lemma approve_mined:
  assumes "store_inv s" and "r \<in> set (users s)" and "status r = ''pending''"
  shows "post_approve_request (Mined h) (walletAddress r) s
           = reply 200 (SuccessBody ''User approved and registered on chain'')
               (user_save (r\<lparr>status := ''approved''\<rparr>) s)
               [ContractCall ''registerUser''
                  [JString (walletAddress r), JString (name r), JNumber (Finite (of_int (role r)))],
                TxWait]"
    and "r\<lparr>status := ''approved''\<rparr> \<in> set (users (user_save (r\<lparr>status := ''approved''\<rparr>) s))"
proof -
  from assms have "User_findOne (Value (walletAddress r)) (Some ''pending'') s = Inr (Some r)"
    by (simp add: findOne_row)
  then show "post_approve_request (Mined h) (walletAddress r) s
           = reply 200 (SuccessBody ''User approved and registered on chain'')
               (user_save (r\<lparr>status := ''approved''\<rparr>) s)
               [ContractCall ''registerUser''
                  [JString (walletAddress r), JString (name r), JNumber (Finite (of_int (role r)))],
                TxWait]"
    by (simp add: post_approve_request_def Let_def)
  from assms(2) show "r\<lparr>status := ''approved''\<rparr> \<in> set (users (user_save (r\<lparr>status := ''approved''\<rparr>) s))"
    by (force simp: user_save_def)
qed

lemma not_pending_404:
  assumes "store_inv s" and "r \<in> set (users s)" and "status r \<noteq> ''pending''"
  shows "post_approve_request c (walletAddress r) s
           = reply 404 (ErrorBody ''User not found or already processed'') s []"
    and "post_reject_request (walletAddress r) s
           = reply 404 (ErrorBody ''User not found or already processed'') s []"
proof -
  from assms have f: "User_findOne (Value (walletAddress r)) (Some ''pending'') s = Inr None"
    by (simp add: findOne_row)
  from f show "post_approve_request c (walletAddress r) s
           = reply 404 (ErrorBody ''User not found or already processed'') s []"
    by (simp add: post_approve_request_def)
  from f show "post_reject_request (walletAddress r) s
           = reply 404 (ErrorBody ''User not found or already processed'') s []"
    by (simp add: post_reject_request_def)
qed

lemma uid_identifies_row:
  assumes "store_inv s" and "r \<in> set (users s)" and "x \<in> set (users s)" and "uid x = uid r"
  shows "x = r"
proof -
  from assms(1) have "distinct (map uid (users s))" by (simp add: store_inv_def)
  then have "inj_on uid (set (users s))" by (simp add: distinct_map)
  with assms(2-4) show ?thesis by (auto dest: inj_onD)
qed

lemma user_destroy_set:
  assumes "store_inv s" and "r \<in> set (users s)"
  shows "set (users (user_destroy r s)) = set (users s) - {r}"
  using uid_identifies_row [OF assms] by (auto simp: user_destroy_def)

lemma wallet_identifies_row:
  assumes "store_inv s" and "r \<in> set (users s)" and "x \<in> set (users s)"
    and "walletAddress x = walletAddress r"
  shows "x = r"
proof -
  from assms(1) have "distinct (map walletAddress (users s))" by (simp add: store_inv_def)
  then have "inj_on walletAddress (set (users s))" by (simp add: distinct_map)
  with assms(2-4) show ?thesis by (auto dest: inj_onD)
qed

section \<open>Approval is final\<close>

text \<open>
  C5. Approve is monotonic: for a wallet whose row is \<open>approved\<close>, both Approve and Reject
  answer 404 (each matches only a row that is still \<open>pending\<close>), leave the store as it is and
  make no contract call. In particular, after a confirmed Approve of a pending row the status
  read is \<open>approved\<close>, and a second Approve or a Reject of that wallet answers 404 with an
  empty trace, so the on-chain registration is not repeated.
\<close>

theorem approved_wallet_is_final:
  assumes "store_inv s" and "r \<in> set (users s)"
  shows "(status r = ''approved'' \<longrightarrow>
            post_approve_request c (walletAddress r) s
              = reply 404 (ErrorBody ''User not found or already processed'') s []
          \<and> post_reject_request (walletAddress r) s
              = reply 404 (ErrorBody ''User not found or already processed'') s [])
       \<and> (status r = ''pending'' \<longrightarrow>
            (let s' = db (post_approve_request (Mined h) (walletAddress r) s)
             in resp (get_user_status (walletAddress r) s')
                  = \<lparr>code = 200, payload = StatusBody ''approved''\<rparr>
              \<and> post_approve_request c (walletAddress r) s'
                  = reply 404 (ErrorBody ''User not found or already processed'') s' []
              \<and> post_reject_request (walletAddress r) s'
                  = reply 404 (ErrorBody ''User not found or already processed'') s' []))"
proof (intro conjI impI)
  assume "status r = ''approved''"
  then have np: "status r \<noteq> ''pending''" by simp
  from not_pending_404 [OF assms np]
  show "post_approve_request c (walletAddress r) s
          = reply 404 (ErrorBody ''User not found or already processed'') s []"
    and "post_reject_request (walletAddress r) s
          = reply 404 (ErrorBody ''User not found or already processed'') s []"
    by simp_all
next
  assume p: "status r = ''pending''"
  let ?r = "r\<lparr>status := ''approved''\<rparr>"
  let ?s = "user_save ?r s"
  from approve_mined(1) [OF assms p, of h]
  have d: "db (post_approve_request (Mined h) (walletAddress r) s) = ?s"
    by (simp add: reply_def)
  from approve_mined(2) [OF assms p] have m: "?r \<in> set (users ?s)" .
  from assms(1) have inv: "store_inv ?s" by (rule user_save_inv)
  have np: "status ?r \<noteq> ''pending''" by simp
  from findOne_row [OF inv m, of None]
  have "resp (get_user_status (walletAddress r) ?s) = \<lparr>code = 200, payload = StatusBody ''approved''\<rparr>"
    by (simp add: get_user_status_def reply_def)
  with not_pending_404(1) [OF inv m np, of c] not_pending_404(2) [OF inv m np] d
  show "let s' = db (post_approve_request (Mined h) (walletAddress r) s)
        in resp (get_user_status (walletAddress r) s')
             = \<lparr>code = 200, payload = StatusBody ''approved''\<rparr>
         \<and> post_approve_request c (walletAddress r) s'
             = reply 404 (ErrorBody ''User not found or already processed'') s' []
         \<and> post_reject_request (walletAddress r) s'
             = reply 404 (ErrorBody ''User not found or already processed'') s' []"
    by (simp add: Let_def)
qed

theorem approved_wallet_is_final_witness:
  "post_approve_request (Mined ''0x52'') ''0xABC'' approved_store
     = reply 404 (ErrorBody ''User not found or already processed'') approved_store []
   \<and> post_reject_request ''0xABC'' approved_store
     = reply 404 (ErrorBody ''User not found or already processed'') approved_store []
   \<and> db (post_approve_request (Mined ''0x51'') ''0xABC'' pending_store) = approved_store
   \<and> post_approve_request (Mined ''0x52'') ''0xABC''
       (db (post_approve_request (Mined ''0x51'') ''0xABC'' pending_store))
     = reply 404 (ErrorBody ''User not found or already processed'') approved_store []"
proof -
  let ?a = "acme\<lparr>status := ''approved''\<rparr>"
  have 1: "?a \<in> set (users approved_store)" by (simp add: approved_store_def)
  have 2: "acme \<in> set (users pending_store)" by (simp add: pending_store_def)
  have 3: "status ?a = ''approved''" and 4: "status acme = ''pending''"
    and 5: "walletAddress ?a = ''0xABC''" and 6: "walletAddress acme = ''0xABC''"
    by (simp_all add: acme_def)
  have 7: "db (post_approve_request (Mined ''0x51'') ''0xABC'' pending_store) = approved_store"
    by (simp add: post_approve_request_def User_findOne_def pending_store_def approved_store_def
          acme_def reply_def user_save_def)
  from approved_wallet_is_final [OF approved_store_inv 1, of "Mined ''0x52''"] 3 5
  have a: "post_approve_request (Mined ''0x52'') ''0xABC'' approved_store
     = reply 404 (ErrorBody ''User not found or already processed'') approved_store []
   \<and> post_reject_request ''0xABC'' approved_store
     = reply 404 (ErrorBody ''User not found or already processed'') approved_store []"
    by simp
  from approved_wallet_is_final [OF pending_store_inv 2, of "Mined ''0x52''" "''0x51''"] 4 6 7
  have b: "post_approve_request (Mined ''0x52'') ''0xABC''
       (db (post_approve_request (Mined ''0x51'') ''0xABC'' pending_store))
     = reply 404 (ErrorBody ''User not found or already processed'') approved_store []"
    by (simp add: Let_def)
  from a b 7 show ?thesis by simp
qed

section \<open>Rejection\<close>

text \<open>
  C6. Reject removes the row entirely: for a wallet with a pending row, Reject answers
  success, deletes exactly that row and makes no contract call; the status read afterwards is
  the 404 \<open>not_found\<close> result, not the string \<open>rejected\<close>.
\<close>

theorem reject_removes_row:
  assumes "store_inv s" and "r \<in> set (users s)" and "status r = ''pending''"
  shows "post_reject_request (walletAddress r) s
           = reply 200 (SuccessBody ''User registration rejected'') (user_destroy r s) []
         \<and> set (users (user_destroy r s)) = set (users s) - {r}
         \<and> get_user_status (walletAddress r) (db (post_reject_request (walletAddress r) s))
           = reply 404 (StatusBody ''not_found'') (user_destroy r s) []
         \<and> payload (resp (get_user_status (walletAddress r)
                              (db (post_reject_request (walletAddress r) s))))
           \<noteq> StatusBody ''rejected''"
proof -
  from assms have "User_findOne (Value (walletAddress r)) (Some ''pending'') s = Inr (Some r)"
    by (simp add: findOne_row)
  then have a: "post_reject_request (walletAddress r) s
           = reply 200 (SuccessBody ''User registration rejected'') (user_destroy r s) []"
    by (simp add: post_reject_request_def)
  have b: "set (users (user_destroy r s)) = set (users s) - {r}"
    using assms(1,2) by (rule user_destroy_set)
  have "walletAddress r \<notin> walletAddress ` set (users (user_destroy r s))"
  proof
    assume "walletAddress r \<in> walletAddress ` set (users (user_destroy r s))"
    then obtain x where x: "x \<in> set (users (user_destroy r s))" "walletAddress x = walletAddress r"
      by auto
    with b have "x \<in> set (users s)" "x \<noteq> r" by auto
    with wallet_identifies_row [OF assms(1,2)] x(2) show False by blast
  qed
  then have "User_findOne (Value (walletAddress r)) None (user_destroy r s) = Inr None"
    by (rule findOne_absent)
  then have c: "get_user_status (walletAddress r) (user_destroy r s)
           = reply 404 (StatusBody ''not_found'') (user_destroy r s) []"
    by (simp add: get_user_status_def)
  from a b c show ?thesis by (simp add: reply_def)
qed

theorem reject_removes_row_witness:
  "post_reject_request ''0xABC'' pending_store
     = reply 200 (SuccessBody ''User registration rejected'') (pending_store\<lparr>users := []\<rparr>) []
   \<and> get_user_status ''0xABC'' (db (post_reject_request ''0xABC'' pending_store))
     = reply 404 (StatusBody ''not_found'') (pending_store\<lparr>users := []\<rparr>) []"
proof -
  have 1: "acme \<in> set (users pending_store)" by (simp add: pending_store_def)
  have 2: "status acme = ''pending''" and 3: "walletAddress acme = ''0xABC''"
    by (simp_all add: acme_def)
  have 4: "user_destroy acme pending_store = pending_store\<lparr>users := []\<rparr>"
    by (simp add: user_destroy_def pending_store_def)
  from reject_removes_row [OF pending_store_inv 1 2, unfolded 3 4]
  show ?thesis by blast
qed

section \<open>Login\<close>

text \<open>
  C7. Login succeeds only for approved users: the store is never changed and nothing is
  called; the answer is 200 exactly when a row with that wallet and status \<open>approved\<close>
  exists; for a wallet without such a row the answer is the 404 of the route; in particular a
  wallet whose row is \<open>pending\<close> gets the 404 although the row exists.
\<close>

theorem login_only_approved:
  "db (post_login w s) = s \<and> trace (post_login w s) = []
   \<and> (code (resp (post_login w s)) = 200
        \<longleftrightarrow> (\<exists>r \<in> set (users s). w = Value (walletAddress r) \<and> status r = ''approved''))
   \<and> (\<forall>a. w = Value a \<and> \<not> (\<exists>r \<in> set (users s). walletAddress r = a \<and> status r = ''approved'')
        \<longrightarrow> post_login w s = reply 404 (ErrorBody ''User not found or not approved'') s [])
   \<and> (\<forall>r. store_inv s \<and> r \<in> set (users s) \<and> status r = ''pending'' \<and> w = Value (walletAddress r)
        \<longrightarrow> post_login w s = reply 404 (ErrorBody ''User not found or not approved'') s [])"
proof (intro conjI allI impI)
  show "db (post_login w s) = s"
    by (simp add: post_login_def reply_def split: sum.splits option.splits)
  show "trace (post_login w s) = []"
    by (simp add: post_login_def reply_def split: sum.splits option.splits)
  show "code (resp (post_login w s)) = 200
        \<longleftrightarrow> (\<exists>r \<in> set (users s). w = Value (walletAddress r) \<and> status r = ''approved'')"
  proof (cases w)
    case (Value a)
    then show ?thesis
      by (auto simp: post_login_def reply_def User_findOne_def find_None_iff find_Some_iff
               split: option.splits)
  qed (simp_all add: post_login_def reply_def User_findOne_def)
next
  fix a
  assume "w = Value a \<and> \<not> (\<exists>r \<in> set (users s). walletAddress r = a \<and> status r = ''approved'')"
  then show "post_login w s = reply 404 (ErrorBody ''User not found or not approved'') s []"
    by (auto simp: post_login_def User_findOne_def find_None_iff find_Some_iff
             split: option.splits)
next
  fix r
  assume h: "store_inv s \<and> r \<in> set (users s) \<and> status r = ''pending'' \<and> w = Value (walletAddress r)"
  then have "User_findOne w (Some ''approved'') s = Inr None"
    by (simp add: findOne_row)
  then show "post_login w s = reply 404 (ErrorBody ''User not found or not approved'') s []"
    by (simp add: post_login_def)
qed

theorem login_only_approved_witness:
  "post_login (Value ''0xABC'') pending_store
     = reply 404 (ErrorBody ''User not found or not approved'') pending_store []
   \<and> code (resp (post_login (Value ''0xABC'') approved_store)) = 200
   \<and> db (post_login (Value ''0xABC'') approved_store) = approved_store"
proof -
  have 1: "store_inv pending_store \<and> acme \<in> set (users pending_store) \<and> status acme = ''pending''
           \<and> Value ''0xABC'' = Value (walletAddress acme)"
    by (simp add: pending_store_inv) (simp add: pending_store_def acme_def)
  have 2: "\<exists>r \<in> set (users approved_store).
             Value ''0xABC'' = Value (walletAddress r) \<and> status r = ''approved''"
    by (simp add: approved_store_def acme_def)
  from login_only_approved [of "Value ''0xABC''" pending_store] 1
  have a: "post_login (Value ''0xABC'') pending_store
     = reply 404 (ErrorBody ''User not found or not approved'') pending_store []"
    by blast
  from login_only_approved [of "Value ''0xABC''" approved_store] 2
  have b: "code (resp (post_login (Value ''0xABC'') approved_store)) = 200
           \<and> db (post_login (Value ''0xABC'') approved_store) = approved_store"
    by blast
  from a b show ?thesis by simp
qed

section \<open>Registering a product\<close>

text \<open>
  The upload comes first. For a request with \<open>name\<close>, \<open>batchId\<close> and \<open>details\<close> present,
  when the upload throws the route answers 500 with the thrown message and the run contains
  no contract call. Conversely a run that contains a contract call began with the upload,
  which returned, and \<open>registerProduct\<close> was called next with whatever reading
  \<open>IpfsHash\<close> from the upload's answer gave.
\<close>

lemma upload_throw_aborts_before_chain:
  assumes "truthy name'" and "truthy batchId" and "truthy details"
  shows "(pin env = Inl m \<longrightarrow>
            post_register_product env name' batchId details
              = (\<lparr>code = 500, payload = ErrorBody m\<rparr>, [PinFile details])
          \<and> contract_calls (snd (post_register_product env name' batchId details)) = [])
       \<and> (contract_calls (snd (post_register_product env name' batchId details)) \<noteq> [] \<longrightarrow>
            (\<exists>d h t. pin env = Inr d \<and> get_prop d ''IpfsHash'' = Inr h
               \<and> snd (post_register_product env name' batchId details)
                   = PinFile details # ContractCall ''registerProduct'' [name', batchId, h] # t))"
proof (intro conjI impI)
  assume p: "pin env = Inl m"
  with assms show a: "post_register_product env name' batchId details
              = (\<lparr>code = 500, payload = ErrorBody m\<rparr>, [PinFile details])"
    by (simp add: post_register_product_def uploadToIPFS_def)
  show "contract_calls (snd (post_register_product env name' batchId details)) = []"
    by (simp add: a contract_calls_def)
next
  assume c: "contract_calls (snd (post_register_product env name' batchId details)) \<noteq> []"
  show "\<exists>d h t. pin env = Inr d \<and> get_prop d ''IpfsHash'' = Inr h
               \<and> snd (post_register_product env name' batchId details)
                   = PinFile details # ContractCall ''registerProduct'' [name', batchId, h] # t"
  proof (cases "pin env")
    case (Inl m')
    with assms c show ?thesis
      by (simp add: post_register_product_def uploadToIPFS_def contract_calls_def)
  next
    case (Inr d)
    show ?thesis
    proof (cases "get_prop d ''IpfsHash''")
      case (Inl m')
      with Inr assms c show ?thesis
        by (simp add: post_register_product_def uploadToIPFS_def contract_calls_def)
    next
      case h: (Inr h)
      with Inr assms show ?thesis
        by (simp add: post_register_product_def uploadToIPFS_def register_on_chain_def Let_def
                 split: tx_outcome.splits sum.splits)
    qed
  qed
qed

lemma upload_throw_aborts_before_chain_example:
  "post_register_product pinata_down (JString ''Amoxil'') (JString ''B-1'')
       (JObject [(''dose'', JString ''500mg'')])
     = (\<lparr>code = 500, payload = ErrorBody ''Request failed with status code 401''\<rparr>,
        [PinFile (JObject [(''dose'', JString ''500mg'')])])
   \<and> contract_calls (snd (post_register_product pinata_down (JString ''Amoxil'') (JString ''B-1'')
       (JObject [(''dose'', JString ''500mg'')]))) = []"
proof -
  have 1: "truthy (JString ''Amoxil'')" and 2: "truthy (JString ''B-1'')"
    and 3: "truthy (JObject [(''dose'', JString ''500mg'')])"
    by simp_all
  have 4: "pin pinata_down = Inl ''Request failed with status code 401''"
    by (simp add: pinata_down_def)
  from upload_throw_aborts_before_chain [OF 1 2 3, of pinata_down "''Request failed with status code 401''"] 4
  show ?thesis by blast
qed

text \<open>
  C2. RegisterProduct is to abort before any on-chain write when pinning fails. The route
  does so only when the upload throws. An upload that returns an answer without the
  \<open>IpfsHash\<close> member is a failed pin too, and the route does not notice it: it reads
  \<open>undefined\<close> as the hash and calls \<open>registerProduct\<close> with it, so the run contains one
  contract call, and when the chain confirms the answer is a success whose hash is
  \<open>undefined\<close>.
\<close>

theorem register_product_missing_hash:
  assumes "truthy name'" and "truthy batchId" and "truthy details"
    and "pin env = Inr d" and "get_prop d ''IpfsHash'' = Inr JUndefined"
  shows "contract_calls (snd (post_register_product env name' batchId details))
           = [ContractCall ''registerProduct'' [name', batchId, JUndefined]]
         \<and> (\<exists>t. snd (post_register_product env name' batchId details)
                  = PinFile details
                    # ContractCall ''registerProduct'' [name', batchId, JUndefined] # t)
         \<and> (\<forall>h. chain env = Mined h \<longrightarrow>
                snd (post_register_product env name' batchId details)
                  = [PinFile details,
                     ContractCall ''registerProduct'' [name', batchId, JUndefined],
                     TxWait, QRCodeToDataURL (verifyUrl env batchId)])"
  using assms
  by (simp add: post_register_product_def uploadToIPFS_def register_on_chain_def Let_def
        contract_calls_def split: tx_outcome.splits sum.splits)

theorem register_product_missing_hash_witness:
  "post_register_product (pinata_no_hash (Mined ''0x77''))
       (JString ''Amoxil'') (JString ''B-1'') (JObject [(''dose'', JString ''500mg'')])
     = (\<lparr>code = 200,
         payload = ProductBody ''0x77'' JUndefined ''http://localhost:3000/verify/B-1''
                     ''data:image/png;base64,http://localhost:3000/verify/B-1''\<rparr>,
        [PinFile (JObject [(''dose'', JString ''500mg'')]),
         ContractCall ''registerProduct'' [JString ''Amoxil'', JString ''B-1'', JUndefined],
         TxWait,
         QRCodeToDataURL ''http://localhost:3000/verify/B-1''])
   \<and> contract_calls (snd (post_register_product (pinata_no_hash (Mined ''0x77''))
       (JString ''Amoxil'') (JString ''B-1'') (JObject [(''dose'', JString ''500mg'')])))
     = [ContractCall ''registerProduct'' [JString ''Amoxil'', JString ''B-1'', JUndefined]]
   \<and> contract_calls (snd (post_register_product
       (pinata_no_hash (CallThrows ''invalid string value''))
       (JString ''Amoxil'') (JString ''B-1'') (JObject [(''dose'', JString ''500mg'')])))
     = [ContractCall ''registerProduct'' [JString ''Amoxil'', JString ''B-1'', JUndefined]]"
proof -
  let ?d = "JObject [(''dose'', JString ''500mg'')]"
  have 1: "truthy (JString ''Amoxil'')" and 2: "truthy (JString ''B-1'')" and 3: "truthy ?d"
    by simp_all
  have 4: "pin (pinata_no_hash c) = Inr (JObject [])" for c
    by (simp add: pinata_no_hash_def)
  have 5: "get_prop (JObject []) ''IpfsHash'' = Inr JUndefined" by simp
  have a: "contract_calls (snd (post_register_product (pinata_no_hash c)
              (JString ''Amoxil'') (JString ''B-1'') ?d))
           = [ContractCall ''registerProduct'' [JString ''Amoxil'', JString ''B-1'', JUndefined]]"
    for c
    using register_product_missing_hash [OF 1 2 3 4 5] by blast
  have b: "post_register_product (pinata_no_hash (Mined ''0x77''))
              (JString ''Amoxil'') (JString ''B-1'') ?d
           = (\<lparr>code = 200,
               payload = ProductBody ''0x77'' JUndefined ''http://localhost:3000/verify/B-1''
                           ''data:image/png;base64,http://localhost:3000/verify/B-1''\<rparr>,
              [PinFile ?d,
               ContractCall ''registerProduct'' [JString ''Amoxil'', JString ''B-1'', JUndefined],
               TxWait,
               QRCodeToDataURL ''http://localhost:3000/verify/B-1''])"
    by (simp add: post_register_product_def uploadToIPFS_def register_on_chain_def Let_def
          pinata_no_hash_def verifyUrl_def)
  from a b show ?thesis by blast
qed

section \<open>Revoking a batch\<close>

lemma validation_is_positivity:
  "(\<not> number_truthy n \<or> number_le_zero n) \<longleftrightarrow> \<not> positive_number n"
  by (cases n) auto

text \<open>
  C8, as stated, fails on the route that takes \<open>batchId\<close> from the body: it tests the
  field for truthiness only, so the negative id \<open>-5\<close> passes, \<open>revokeBatch\<close> is called and
  the answer is not a 400.
\<close>

theorem revoke_batch_counterexample:
  "post_revoke_batch (Mined ''0x9'') (JNumber (Finite (- 5)))
     = (\<lparr>code = 200, payload = TxHashBody ''0x9''\<rparr>,
        [ContractCall ''revokeBatch'' [JNumber (Finite (- 5))], TxWait])
   \<and> \<not> positive_number (Finite (- 5))
   \<and> code (fst (post_revoke_batch (Mined ''0x9'') (JNumber (Finite (- 5))))) \<noteq> 400
   \<and> contract_calls (snd (post_revoke_batch (Mined ''0x9'') (JNumber (Finite (- 5))))) \<noteq> []"
  by (simp add: post_revoke_batch_def contract_calls_def)

text \<open>
  C8, amended. \<open>POST /revoke-batch/:id\<close> refuses, with 400 and no contract call, every id
  whose conversion is not a positive number (\<open>NaN\<close>, zero, negative). \<open>POST /revoke-batch\<close>
  refuses, with 400 and no contract call, every falsy \<open>batchId\<close> (absent, \<open>null\<close>, zero,
  the empty string, \<open>false\<close>) and nothing else. Otherwise each route makes exactly one
  \<open>revokeBatch\<close> call, followed by the wait on the transaction unless the call itself throws.
\<close>

theorem revoke_batch_validation:
  "(\<not> positive_number (Number raw) \<longrightarrow>
      post_revoke_batch_id Number c raw reason
        = (\<lparr>code = 400, payload = ErrorBody ''Invalid batch id''\<rparr>, []))
   \<and> (positive_number (Number raw) \<longrightarrow>
      contract_calls (snd (post_revoke_batch_id Number c raw reason))
        = [ContractCall ''revokeBatch''
             [JNumber (Number raw), nullish_default reason (JString ''Revoked by admin'')]]
      \<and> snd (post_revoke_batch_id Number c raw reason)
        = ContractCall ''revokeBatch''
             [JNumber (Number raw), nullish_default reason (JString ''Revoked by admin'')]
          # (case c of CallThrows m \<Rightarrow> [] | _ \<Rightarrow> [TxWait]))
   \<and> (\<not> truthy b \<longrightarrow>
      post_revoke_batch c b = (\<lparr>code = 400, payload = ErrorBody ''Missing batchId''\<rparr>, []))
   \<and> (truthy b \<longrightarrow>
      contract_calls (snd (post_revoke_batch c b)) = [ContractCall ''revokeBatch'' [b]]
      \<and> snd (post_revoke_batch c b)
        = ContractCall ''revokeBatch'' [b] # (case c of CallThrows m \<Rightarrow> [] | _ \<Rightarrow> [TxWait]))"
proof (intro conjI impI)
  assume "\<not> positive_number (Number raw)"
  then have "\<not> number_truthy (Number raw) \<or> number_le_zero (Number raw)"
    using validation_is_positivity [of "Number raw"] by blast
  then show "post_revoke_batch_id Number c raw reason
        = (\<lparr>code = 400, payload = ErrorBody ''Invalid batch id''\<rparr>, [])"
    by (auto simp: post_revoke_batch_id_def Let_def)
next
  assume "positive_number (Number raw)"
  then have v: "\<not> (\<not> number_truthy (Number raw) \<or> number_le_zero (Number raw))"
    using validation_is_positivity [of "Number raw"] by blast
  from v show "snd (post_revoke_batch_id Number c raw reason)
        = ContractCall ''revokeBatch''
             [JNumber (Number raw), nullish_default reason (JString ''Revoked by admin'')]
          # (case c of CallThrows m \<Rightarrow> [] | _ \<Rightarrow> [TxWait])"
    by (cases c) (auto simp: post_revoke_batch_id_def Let_def)
  then show "contract_calls (snd (post_revoke_batch_id Number c raw reason))
        = [ContractCall ''revokeBatch''
             [JNumber (Number raw), nullish_default reason (JString ''Revoked by admin'')]]"
    by (cases c) (simp_all add: contract_calls_def)
next
  assume "\<not> truthy b"
  then show "post_revoke_batch c b = (\<lparr>code = 400, payload = ErrorBody ''Missing batchId''\<rparr>, [])"
    by (simp add: post_revoke_batch_def)
next
  assume "truthy b"
  then show w: "snd (post_revoke_batch c b)
        = ContractCall ''revokeBatch'' [b] # (case c of CallThrows m \<Rightarrow> [] | _ \<Rightarrow> [TxWait])"
    by (cases c) (simp_all add: post_revoke_batch_def Let_def)
  from w show "contract_calls (snd (post_revoke_batch c b)) = [ContractCall ''revokeBatch'' [b]]"
    by (cases c) (simp_all add: contract_calls_def)
qed

theorem revoke_batch_validation_witness:
  "post_revoke_batch_id (\<lambda>x. if x = ''7'' then Finite 7 else NaN) (Mined ''0x9'') ''abc'' JUndefined
     = (\<lparr>code = 400, payload = ErrorBody ''Invalid batch id''\<rparr>, [])
   \<and> snd (post_revoke_batch_id (\<lambda>x. if x = ''7'' then Finite 7 else NaN) (Mined ''0x9'') ''7'' JUndefined)
     = [ContractCall ''revokeBatch'' [JNumber (Finite 7), JString ''Revoked by admin''], TxWait]
   \<and> post_revoke_batch (Mined ''0x9'') (JNumber (Finite 0))
     = (\<lparr>code = 400, payload = ErrorBody ''Missing batchId''\<rparr>, [])
   \<and> snd (post_revoke_batch (Mined ''0x9'') (JString ''B-1''))
     = [ContractCall ''revokeBatch'' [JString ''B-1''], TxWait]"
proof -
  let ?N = "\<lambda>x. if x = ''7'' then Finite 7 else NaN"
  have 1: "\<not> positive_number (?N ''abc'')" and 2: "positive_number (?N ''7'')"
    and 3: "\<not> truthy (JNumber (Finite 0))" and 4: "truthy (JString ''B-1'')"
    by simp_all
  from revoke_batch_validation [of ?N "''abc''" "Mined ''0x9''" JUndefined "JNumber (Finite 0)"] 1 3
  have a: "post_revoke_batch_id ?N (Mined ''0x9'') ''abc'' JUndefined
     = (\<lparr>code = 400, payload = ErrorBody ''Invalid batch id''\<rparr>, [])
     \<and> post_revoke_batch (Mined ''0x9'') (JNumber (Finite 0))
     = (\<lparr>code = 400, payload = ErrorBody ''Missing batchId''\<rparr>, [])"
    by blast
  from revoke_batch_validation [of ?N "''7''" "Mined ''0x9''" JUndefined "JString ''B-1''"] 2 4
  have b: "snd (post_revoke_batch_id ?N (Mined ''0x9'') ''7'' JUndefined)
     = [ContractCall ''revokeBatch'' [JNumber (Finite 7), JString ''Revoked by admin''], TxWait]
     \<and> snd (post_revoke_batch (Mined ''0x9'') (JString ''B-1''))
     = [ContractCall ''revokeBatch'' [JString ''B-1''], TxWait]"
    by simp
  from a b show ?thesis by blast
qed

section \<open>Signup and the registry\<close>

lemma license_found:
  assumes "l \<in> ppb_licenseNumber ` set (ppb s)"
  shows "\<exists>x. PPBRecord_findOne (Value l) s = Inr (Some x)"
proof (cases "find (\<lambda>r. ppb_licenseNumber r = l) (ppb s)")
  case None
  with assms show ?thesis by (auto simp: find_None_iff)
next
  case (Some x)
  then show ?thesis by (simp add: PPBRecord_findOne_def)
qed

lemma license_not_found:
  assumes "\<forall>l. lf = Value l \<longrightarrow> l \<notin> ppb_licenseNumber ` set (ppb s)"
  shows "PPBRecord_findOne lf s = Inr None \<or> (\<exists>e. PPBRecord_findOne lf s = Inl e)"
  using assms by (cases lf) (auto simp: PPBRecord_findOne_def find_None_iff)

lemma license_not_found_given:
  assumes "\<forall>l. lf = Value l \<longrightarrow> l \<notin> ppb_licenseNumber ` set (ppb s)" and "lf \<noteq> Undefined"
  shows "PPBRecord_findOne lf s = Inr None"
  using assms by (cases lf) (auto simp: PPBRecord_findOne_def find_None_iff)

text \<open>
  C4, as stated, fails on the status code: a signup with a fresh wallet and the unknown
  license \<open>PPB-9999\<close> is refused with 400, not with the 404 of the taxonomy's
  NotFoundError.
\<close>

theorem signup_unknown_license_counterexample:
  "post_signup \<lparr>req_name = Value ''Beta Labs'', req_email = Value ''b@x.com'', req_role = Value 2,
                 req_walletAddress = Value ''0xDEF'', req_licenseNumber = Value ''PPB-9999''\<rparr>
       pending_store
     = reply 400 (MessageBody ''License number not found in PPB database'') pending_store []
   \<and> code (resp (post_signup \<lparr>req_name = Value ''Beta Labs'', req_email = Value ''b@x.com'',
                               req_role = Value 2, req_walletAddress = Value ''0xDEF'',
                               req_licenseNumber = Value ''PPB-9999''\<rparr> pending_store)) \<noteq> 404"
  by (simp add: post_signup_def User_findOne_def PPBRecord_findOne_def pending_store_def
        registry_def acme_def reply_def)

text \<open>
  C4, amended. For every license number with no matching record in the registry mirror,
  Signup does not succeed and creates no row: the store is unchanged, nothing is called and
  the answer is a 400 or a 500. When the wallet address is present and not yet registered and
  a license number is given, the answer is the 400 with the message
  \<open>License number not found in PPB database\<close>.
\<close>

theorem signup_unknown_license:
  assumes "\<forall>l. req_licenseNumber b = Value l \<longrightarrow> l \<notin> ppb_licenseNumber ` set (ppb s)"
  shows "db (post_signup b s) = s \<and> trace (post_signup b s) = []
       \<and> code (resp (post_signup b s)) \<in> {400, 500}
       \<and> (field_truthy (req_walletAddress b)
            \<and> (\<forall>w. req_walletAddress b = Value w \<longrightarrow> w \<notin> walletAddress ` set (users s))
            \<and> req_licenseNumber b \<noteq> Undefined
          \<longrightarrow> post_signup b s
                = reply 400 (MessageBody ''License number not found in PPB database'') s [])"
proof -
  from license_not_found [OF assms]
  have a: "db (post_signup b s) = s \<and> trace (post_signup b s) = []
       \<and> code (resp (post_signup b s)) \<in> {400, 500}"
    by (auto simp: post_signup_def reply_def split: sum.splits option.splits)
  have "post_signup b s = reply 400 (MessageBody ''License number not found in PPB database'') s []"
    if t: "field_truthy (req_walletAddress b)"
      and f: "\<forall>w. req_walletAddress b = Value w \<longrightarrow> w \<notin> walletAddress ` set (users s)"
      and g: "req_licenseNumber b \<noteq> Undefined"
  proof -
    from t obtain w where w: "req_walletAddress b = Value w" by (cases "req_walletAddress b") auto
    with f have "User_findOne (req_walletAddress b) None s = Inr None"
      by (simp add: findOne_absent)
    with t license_not_found_given [OF assms g] show ?thesis
      by (simp add: post_signup_def)
  qed
  with a show ?thesis by blast
qed

theorem signup_unknown_license_witness:
  "post_signup \<lparr>req_name = Value ''Beta Labs'', req_email = Value ''b@x.com'', req_role = Value 2,
                 req_walletAddress = Value ''0xDEF'', req_licenseNumber = Value ''PPB-9999''\<rparr>
       pending_store
     = reply 400 (MessageBody ''License number not found in PPB database'') pending_store []"
proof -
  let ?b = "\<lparr>req_name = Value ''Beta Labs'', req_email = Value ''b@x.com'', req_role = Value 2,
                 req_walletAddress = Value ''0xDEF'', req_licenseNumber = Value ''PPB-9999''\<rparr>"
  have 1: "\<forall>l. req_licenseNumber ?b = Value l \<longrightarrow> l \<notin> ppb_licenseNumber ` set (ppb pending_store)"
    by (simp add: pending_store_def registry_def)
  have 2: "field_truthy (req_walletAddress ?b)
            \<and> (\<forall>w. req_walletAddress ?b = Value w \<longrightarrow> w \<notin> walletAddress ` set (users pending_store))
            \<and> req_licenseNumber ?b \<noteq> Undefined"
    by (simp add: pending_store_def acme_def)
  from signup_unknown_license [OF 1] 2 show ?thesis by blast
qed

section \<open>What signup validates\<close>

lemma join_lines_nonempty: "xs \<noteq> [] \<Longrightarrow> hd xs \<noteq> [] \<Longrightarrow> join_lines xs \<noteq> []"
  by (induction xs rule: join_lines.induct) auto

lemma notnull_message_nonempty:
  "fs \<noteq> [] \<Longrightarrow> db_message (NotNullViolation m fs) \<noteq> []"
  by (cases fs) (simp_all add: join_lines_nonempty)

lemma null_attrs_nonempty:
  "is_nullish (a_name a) \<or> is_nullish (a_email a) \<or> is_nullish (a_role a) \<Longrightarrow> null_attrs a \<noteq> []"
  by (auto simp: null_attrs_def)

text \<open>
  Past the presence check: a present, unregistered wallet string and a known license reach
  \<open>User.create\<close>, which inserts the pending row or throws on a null attribute.
\<close>

lemma signup_present_wallet:
  assumes "w \<noteq> []" and "w \<notin> walletAddress ` set (users s)"
    and "l \<in> ppb_licenseNumber ` set (ppb s)"
    and "req_walletAddress b = Value w" and "req_licenseNumber b = Value l"
  shows "(\<not> isValidAddress isAddress w \<and> req_name b = Value n \<and> req_email b = Value e
            \<and> req_role b = Value ro
          \<longrightarrow> post_signup b s
                = reply 200 (SuccessBody ''Registration pending verification by admin'')
                    (s\<lparr>users := users s @
                          [\<lparr>uid = Suc (users_seq s), name = n, email = e, role = ro,
                            walletAddress = w, licenseNumber = l, status = ''pending''\<rparr>],
                        users_seq := Suc (users_seq s)\<rparr>) [])
       \<and> (is_nullish (req_name b) \<or> is_nullish (req_email b) \<or> is_nullish (req_role b)
          \<longrightarrow> post_signup b s
                = reply 500 (ErrorBody (db_message (NotNullViolation ''User'' (null_attrs (attrs_of b))))) s []
              \<and> code (resp (post_signup b s)) \<noteq> 400)"
proof -
  from assms(1,4) have t: "field_truthy (req_walletAddress b)" by simp
  from assms(2,4) have f: "User_findOne (req_walletAddress b) None s = Inr None"
    by (simp add: findOne_absent)
  from license_found [OF assms(3)] assms(5)
  obtain x where g: "PPBRecord_findOne (req_licenseNumber b) s = Inr (Some x)" by auto
  have sg: "post_signup b s =
     (case User_create (attrs_of b) s of
        Inl e \<Rightarrow> reply 500 (ErrorBody (or_default (db_message e) ''Internal Server Error'')) s []
      | Inr s' \<Rightarrow> reply 200 (SuccessBody ''Registration pending verification by admin'') s' [])"
    using t f g by (simp add: post_signup_def attrs_of_def)
  have a: "post_signup b s
                = reply 200 (SuccessBody ''Registration pending verification by admin'')
                    (s\<lparr>users := users s @
                          [\<lparr>uid = Suc (users_seq s), name = n, email = e, role = ro,
                            walletAddress = w, licenseNumber = l, status = ''pending''\<rparr>],
                        users_seq := Suc (users_seq s)\<rparr>) []"
    if "req_name b = Value n \<and> req_email b = Value e \<and> req_role b = Value ro"
  proof -
    from that assms(4,5) have "attrs_of b = \<lparr>a_name = Value n, a_email = Value e, a_role = Value ro,
        a_walletAddress = Value w, a_licenseNumber = Value l, a_status = Value ''pending''\<rparr>"
      by (simp add: attrs_of_def)
    with assms(2) show ?thesis by (simp add: sg User_create_values)
  qed
  have b: "post_signup b s
                = reply 500 (ErrorBody (db_message (NotNullViolation ''User'' (null_attrs (attrs_of b))))) s []
              \<and> code (resp (post_signup b s)) \<noteq> 400"
    if n: "is_nullish (req_name b) \<or> is_nullish (req_email b) \<or> is_nullish (req_role b)"
  proof -
    from n have n': "is_nullish (a_name (attrs_of b)) \<or> is_nullish (a_email (attrs_of b))
                     \<or> is_nullish (a_role (attrs_of b))"
      by (simp add: attrs_of_def)
    have c: "User_create (attrs_of b) s = Inl (NotNullViolation ''User'' (null_attrs (attrs_of b)))"
      using n' by (rule User_create_null)
    have "db_message (NotNullViolation ''User'' (null_attrs (attrs_of b))) \<noteq> []"
      using null_attrs_nonempty [OF n'] by (rule notnull_message_nonempty)
    then have "or_default (db_message (NotNullViolation ''User'' (null_attrs (attrs_of b))))
                 ''Internal Server Error''
               = db_message (NotNullViolation ''User'' (null_attrs (attrs_of b)))"
      by (simp only: or_default_def if_False)
    then show ?thesis by (simp add: sg c reply_def del: db_message.simps)
  qed
  from a b show ?thesis by blast
qed

text \<open>
  C10. The only check \<open>POST /signup\<close> makes on the request itself is that
  \<open>walletAddress\<close> is present: a request whose wallet is absent, \<open>null\<close> or empty is
  refused with the 400 \<open>Wallet address required\<close> and changes nothing. For a present,
  unregistered wallet string and a known license nothing else is checked: a wallet that
  \<open>isValidAddress\<close> would refuse (whatever \<open>ethers.isAddress\<close> is) still gets its
  pending row, because no route calls the helper; a request whose \<open>name\<close>, \<open>email\<close> or
  \<open>role\<close> is missing is answered with 500 and the store's not-null message, not with a 400,
  and creates no row; and the answer is never a 400.
\<close>

theorem signup_checks_presence_only:
  "(\<not> field_truthy (req_walletAddress b) \<longrightarrow>
      post_signup b s = reply 400 (MessageBody ''Wallet address required'') s [])
   \<and> (w \<noteq> [] \<and> w \<notin> walletAddress ` set (users s) \<and> l \<in> ppb_licenseNumber ` set (ppb s)
        \<and> req_walletAddress b = Value w \<and> req_licenseNumber b = Value l \<longrightarrow>
        (\<not> isValidAddress isAddress w \<and> req_name b = Value n \<and> req_email b = Value e
            \<and> req_role b = Value ro
          \<longrightarrow> post_signup b s
                = reply 200 (SuccessBody ''Registration pending verification by admin'')
                    (s\<lparr>users := users s @
                          [\<lparr>uid = Suc (users_seq s), name = n, email = e, role = ro,
                            walletAddress = w, licenseNumber = l, status = ''pending''\<rparr>],
                        users_seq := Suc (users_seq s)\<rparr>) [])
        \<and> (is_nullish (req_name b) \<or> is_nullish (req_email b) \<or> is_nullish (req_role b)
          \<longrightarrow> post_signup b s
                = reply 500 (ErrorBody (db_message (NotNullViolation ''User'' (null_attrs (attrs_of b))))) s []
              \<and> code (resp (post_signup b s)) \<noteq> 400)
        \<and> code (resp (post_signup b s)) \<in> {200, 500})"
proof (intro conjI impI)
  assume "\<not> field_truthy (req_walletAddress b)"
  then show "post_signup b s = reply 400 (MessageBody ''Wallet address required'') s []"
    by (simp add: post_signup_def)
next
  assume h: "w \<noteq> [] \<and> w \<notin> walletAddress ` set (users s) \<and> l \<in> ppb_licenseNumber ` set (ppb s)
        \<and> req_walletAddress b = Value w \<and> req_licenseNumber b = Value l"
  then have 1: "w \<noteq> []" and 2: "w \<notin> walletAddress ` set (users s)"
    and 3: "l \<in> ppb_licenseNumber ` set (ppb s)"
    and 4: "req_walletAddress b = Value w" and 5: "req_licenseNumber b = Value l"
    by simp_all
  note p = signup_present_wallet [OF 1 2 3 4 5]
  {
    assume "\<not> isValidAddress isAddress w \<and> req_name b = Value n \<and> req_email b = Value e
            \<and> req_role b = Value ro"
    with p [of isAddress n e ro]
    show "post_signup b s
                = reply 200 (SuccessBody ''Registration pending verification by admin'')
                    (s\<lparr>users := users s @
                          [\<lparr>uid = Suc (users_seq s), name = n, email = e, role = ro,
                            walletAddress = w, licenseNumber = l, status = ''pending''\<rparr>],
                        users_seq := Suc (users_seq s)\<rparr>) []"
      by blast
  }
  {
    assume "is_nullish (req_name b) \<or> is_nullish (req_email b) \<or> is_nullish (req_role b)"
    with p [of isAddress n e ro]
    show "post_signup b s
                = reply 500 (ErrorBody (db_message (NotNullViolation ''User'' (null_attrs (attrs_of b))))) s []"
      and "code (resp (post_signup b s)) \<noteq> 400"
      by blast+
  }
  show "code (resp (post_signup b s)) \<in> {200, 500}"
  proof (cases "is_nullish (req_name b) \<or> is_nullish (req_email b) \<or> is_nullish (req_role b)")
    case True
    with p [of isAddress n e ro] show ?thesis by (simp add: reply_def)
  next
    case False
    then obtain n' e' ro' where v: "req_name b = Value n'" "req_email b = Value e'" "req_role b = Value ro'"
      by (cases "req_name b"; cases "req_email b"; cases "req_role b") auto
    have "\<not> isValidAddress (\<lambda>a. None) w" by (simp add: isValidAddress_def)
    with p [of "\<lambda>a. None" n' e' ro'] v show ?thesis by (simp add: reply_def)
  qed
qed

theorem signup_checks_presence_only_witness:
  "post_signup \<lparr>req_name = Value ''Beta Labs'', req_email = Value ''b@x.com'', req_role = Value 2,
                 req_walletAddress = Undefined, req_licenseNumber = Value ''PPB-1002''\<rparr>
       pending_store
     = reply 400 (MessageBody ''Wallet address required'') pending_store []
   \<and> post_signup \<lparr>req_name = Value ''Beta Labs'', req_email = Value ''b@x.com'', req_role = Value 2,
                 req_walletAddress = Value ''not-an-address'', req_licenseNumber = Value ''PPB-1002''\<rparr>
       pending_store
     = reply 200 (SuccessBody ''Registration pending verification by admin'')
         (pending_store\<lparr>users := [acme,
              \<lparr>uid = 2, name = ''Beta Labs'', email = ''b@x.com'', role = 2,
                walletAddress = ''not-an-address'', licenseNumber = ''PPB-1002'',
                status = ''pending''\<rparr>], users_seq := 2\<rparr>) []
   \<and> post_signup \<lparr>req_name = Undefined, req_email = Value ''b@x.com'', req_role = Value 2,
                 req_walletAddress = Value ''not-an-address'', req_licenseNumber = Value ''PPB-1002''\<rparr>
       pending_store
     = reply 500 (ErrorBody ''notNull Violation: User.name cannot be null'') pending_store []"
proof -
  let ?a = "\<lparr>req_name = Value ''Beta Labs'', req_email = Value ''b@x.com'', req_role = Value 2,
                 req_walletAddress = Undefined, req_licenseNumber = Value ''PPB-1002''\<rparr>"
  let ?b = "\<lparr>req_name = Value ''Beta Labs'', req_email = Value ''b@x.com'', req_role = Value 2,
                 req_walletAddress = Value ''not-an-address'', req_licenseNumber = Value ''PPB-1002''\<rparr>"
  let ?c = "\<lparr>req_name = Undefined, req_email = Value ''b@x.com'', req_role = Value 2,
                 req_walletAddress = Value ''not-an-address'', req_licenseNumber = Value ''PPB-1002''\<rparr>"
  have 0: "\<not> field_truthy (req_walletAddress ?a)" by simp
  have 1: "''not-an-address'' \<noteq> [] \<and> ''not-an-address'' \<notin> walletAddress ` set (users pending_store)
           \<and> ''PPB-1002'' \<in> ppb_licenseNumber ` set (ppb pending_store)
           \<and> req_walletAddress ?b = Value ''not-an-address''
           \<and> req_licenseNumber ?b = Value ''PPB-1002''"
    by (simp add: pending_store_def acme_def registry_def)
  have 2: "''not-an-address'' \<noteq> [] \<and> ''not-an-address'' \<notin> walletAddress ` set (users pending_store)
           \<and> ''PPB-1002'' \<in> ppb_licenseNumber ` set (ppb pending_store)
           \<and> req_walletAddress ?c = Value ''not-an-address''
           \<and> req_licenseNumber ?c = Value ''PPB-1002''"
    by (simp add: pending_store_def acme_def registry_def)
  have 3: "\<not> isValidAddress (\<lambda>a. Some (length a = 42)) ''not-an-address''
           \<and> req_name ?b = Value ''Beta Labs'' \<and> req_email ?b = Value ''b@x.com''
           \<and> req_role ?b = Value 2"
    by (simp add: isValidAddress_def)
  have 4: "is_nullish (req_name ?c) \<or> is_nullish (req_email ?c) \<or> is_nullish (req_role ?c)"
    by simp
  have 7: "pending_store\<lparr>users := users pending_store @
              [\<lparr>uid = Suc (users_seq pending_store), name = ''Beta Labs'', email = ''b@x.com'',
                role = 2, walletAddress = ''not-an-address'', licenseNumber = ''PPB-1002'',
                status = ''pending''\<rparr>], users_seq := Suc (users_seq pending_store)\<rparr>
           = pending_store\<lparr>users := [acme,
              \<lparr>uid = 2, name = ''Beta Labs'', email = ''b@x.com'', role = 2,
                walletAddress = ''not-an-address'', licenseNumber = ''PPB-1002'',
                status = ''pending''\<rparr>], users_seq := 2\<rparr>"
    by (simp add: pending_store_def)
  have 8: "db_message (NotNullViolation ''User'' (null_attrs (attrs_of ?c)))
           = ''notNull Violation: User.name cannot be null''"
    by (simp add: attrs_of_def null_attrs_def)
  from signup_checks_presence_only [of ?a pending_store] 0
  have a: "post_signup ?a pending_store
     = reply 400 (MessageBody ''Wallet address required'') pending_store []"
    by blast
  from signup_checks_presence_only
         [of ?b pending_store "''not-an-address''" "''PPB-1002''" "\<lambda>a. Some (length a = 42)"
             "''Beta Labs''" "''b@x.com''" 2] 1 3
  have "post_signup ?b pending_store
     = reply 200 (SuccessBody ''Registration pending verification by admin'')
         (pending_store\<lparr>users := users pending_store @
              [\<lparr>uid = Suc (users_seq pending_store), name = ''Beta Labs'', email = ''b@x.com'',
                role = 2, walletAddress = ''not-an-address'', licenseNumber = ''PPB-1002'',
                status = ''pending''\<rparr>], users_seq := Suc (users_seq pending_store)\<rparr>) []"
    by blast
  then have b: "post_signup ?b pending_store
     = reply 200 (SuccessBody ''Registration pending verification by admin'')
         (pending_store\<lparr>users := [acme,
              \<lparr>uid = 2, name = ''Beta Labs'', email = ''b@x.com'', role = 2,
                walletAddress = ''not-an-address'', licenseNumber = ''PPB-1002'',
                status = ''pending''\<rparr>], users_seq := 2\<rparr>) []"
    by (simp only: 7)
  from signup_checks_presence_only [of ?c pending_store "''not-an-address''" "''PPB-1002''"] 2 4
  have "post_signup ?c pending_store
     = reply 500 (ErrorBody (db_message (NotNullViolation ''User'' (null_attrs (attrs_of ?c)))))
         pending_store []"
    by blast
  then have c: "post_signup ?c pending_store
     = reply 500 (ErrorBody ''notNull Violation: User.name cannot be null'') pending_store []"
    by (simp only: 8)
  from a b c show ?thesis by blast
qed

section \<open>Seeding at start-up\<close>

lemma seed_loop_eq: "i \<le> 21 \<Longrightarrow> seed_loop i acc = acc @ map sample_entry [i..<21]"
proof (induction i acc rule: seed_loop.induct)
  case (1 i sample)
  show ?case
  proof (cases "i \<le> 20")
    case True
    then have "[i..<21] = i # [Suc i..<21]" by (simp add: upt_conv_Cons)
    with True 1 show ?thesis by (subst seed_loop.simps) simp
  next
    case False
    with 1 have "i = 21" by simp
    then show ?thesis by (subst seed_loop.simps) simp
  qed
qed

lemma seed_loop_length: "length (seed_loop 1 []) = 20"
  by (simp add: seed_loop_eq)

lemma seed_loop_licenses: "map s_licenseNumber (seed_loop 1 []) = seeded_licenses"
  unfolding seeded_licenses_def by code_simp

lemma seeded_licenses_distinct: "distinct seeded_licenses"
  by (simp add: seeded_licenses_def)

lemma insert_ppb_users:
  "users (insert_ppb as s) = users s \<and> users_seq (insert_ppb as s) = users_seq s"
  by (induction as arbitrary: s) simp_all

lemma insert_ppb_licenses:
  "map ppb_licenseNumber (ppb (insert_ppb as s))
     = map ppb_licenseNumber (ppb s) @ map s_licenseNumber as"
  by (induction as arbitrary: s) simp_all

lemma find_appended_row:
  "w \<notin> walletAddress ` set us \<Longrightarrow> walletAddress y = w \<Longrightarrow>
     find (\<lambda>r. walletAddress r = w \<and> True) (us @ [y]) = Some y"
  by (induction us) auto

lemma signup_creates_pending_row:
  assumes "w \<noteq> []" and "w \<notin> walletAddress ` set (users s)"
    and "l \<in> ppb_licenseNumber ` set (ppb s)"
  shows "post_signup \<lparr>req_name = Value n, req_email = Value e, req_role = Value ro,
                       req_walletAddress = Value w, req_licenseNumber = Value l\<rparr> s
           = reply 200 (SuccessBody ''Registration pending verification by admin'')
               (s\<lparr>users := users s @
                     [\<lparr>uid = Suc (users_seq s), name = n, email = e, role = ro,
                       walletAddress = w, licenseNumber = l, status = ''pending''\<rparr>],
                   users_seq := Suc (users_seq s)\<rparr>) []"
proof -
  from assms(2) have f: "User_findOne (Value w) None s = Inr None" by (rule findOne_absent)
  from license_found [OF assms(3)]
  obtain x where g: "PPBRecord_findOne (Value l) s = Inr (Some x)" by auto
  from assms(1,2) f g show ?thesis
    by (simp add: post_signup_def User_create_values)
qed

lemma status_after_signup:
  assumes "w \<notin> walletAddress ` set (users s)"
  shows "get_user_status w
           (s\<lparr>users := users s @
                 [\<lparr>uid = i, name = n, email = e, role = ro,
                   walletAddress = w, licenseNumber = l, status = ''pending''\<rparr>],
               users_seq := q\<rparr>)
         = reply 200 (StatusBody ''pending'')
             (s\<lparr>users := users s @
                 [\<lparr>uid = i, name = n, email = e, role = ro,
                   walletAddress = w, licenseNumber = l, status = ''pending''\<rparr>],
               users_seq := q\<rparr>) []"
  using find_appended_row [OF assms, of "\<lparr>uid = i, name = n, email = e, role = ro,
                   walletAddress = w, licenseNumber = l, status = ''pending''\<rparr>"]
  by (simp add: get_user_status_def User_findOne_def)

lemma signup_then_status:
  assumes "w \<noteq> []" and "w \<notin> walletAddress ` set (users s)"
    and "l \<in> ppb_licenseNumber ` set (ppb s)"
  shows "resp (post_signup \<lparr>req_name = Value n, req_email = Value e, req_role = Value ro,
                  req_walletAddress = Value w, req_licenseNumber = Value l\<rparr> s)
           = \<lparr>code = 200, payload = SuccessBody ''Registration pending verification by admin''\<rparr>
         \<and> resp (get_user_status w
                 (db (post_signup \<lparr>req_name = Value n, req_email = Value e, req_role = Value ro,
                        req_walletAddress = Value w, req_licenseNumber = Value l\<rparr> s)))
           = \<lparr>code = 200, payload = StatusBody ''pending''\<rparr>"
  by (simp add: signup_creates_pending_row [OF assms] status_after_signup [OF assms(2)] reply_def)

lemma start_server_seeds:
  assumes "PPBRecord_count s = 0"
  shows "start_server s = Inr (insert_ppb (seed_loop 1 []) s)"
    and "map ppb_licenseNumber (ppb (insert_ppb (seed_loop 1 []) s)) = seeded_licenses"
proof -
  from assms have e: "ppb s = []" by (simp add: PPBRecord_count_def)
  then have "distinct (map s_licenseNumber (seed_loop 1 []) @ map ppb_licenseNumber (ppb s))"
    by (simp only: seed_loop_licenses) (simp add: seeded_licenses_distinct)
  then have "PPBRecord_bulkCreate (seed_loop 1 []) s = Inr (insert_ppb (seed_loop 1 []) s)"
    by (simp only: PPBRecord_bulkCreate_def if_True)
  with assms show "start_server s = Inr (insert_ppb (seed_loop 1 []) s)"
    by (simp only: start_server_def refl if_True)
  from e show "map ppb_licenseNumber (ppb (insert_ppb (seed_loop 1 []) s)) = seeded_licenses"
    by (simp only: insert_ppb_licenses seed_loop_licenses list.map(1) append_Nil)
qed

text \<open>
  C9. Start-up seeding and the happy path. A start with a non-empty registry leaves the store
  as it is. A start with an empty registry succeeds and creates exactly 20 records, with the
  license numbers \<open>PPB-1001\<close> to \<open>PPB-1020\<close> in this order, without touching the users; a
  second start does not seed again. In the seeded store a signup with license \<open>PPB-1001\<close> and
  a fresh wallet answers success with the message
  \<open>Registration pending verification by admin\<close>, and the status read for that wallet is then
  \<open>pending\<close>.
\<close>

theorem startup_seeds_registry:
  "(PPBRecord_count s \<noteq> 0 \<longrightarrow> start_server s = Inr s)
   \<and> (PPBRecord_count s = 0 \<longrightarrow>
        (\<exists>s'. start_server s = Inr s' \<and> users s' = users s \<and> PPBRecord_count s' = 20
           \<and> map ppb_licenseNumber (ppb s') = seeded_licenses
           \<and> start_server s' = Inr s'
           \<and> (\<forall>w n e ro. w \<noteq> [] \<and> w \<notin> walletAddress ` set (users s) \<longrightarrow>
                resp (post_signup \<lparr>req_name = Value n, req_email = Value e, req_role = Value ro,
                        req_walletAddress = Value w, req_licenseNumber = Value ''PPB-1001''\<rparr> s')
                  = \<lparr>code = 200,
                     payload = SuccessBody ''Registration pending verification by admin''\<rparr>
                \<and> resp (get_user_status w
                     (db (post_signup \<lparr>req_name = Value n, req_email = Value e, req_role = Value ro,
                        req_walletAddress = Value w, req_licenseNumber = Value ''PPB-1001''\<rparr> s')))
                  = \<lparr>code = 200, payload = StatusBody ''pending''\<rparr>)))"
proof (intro conjI impI)
  assume "PPBRecord_count s \<noteq> 0"
  then show "start_server s = Inr s" by (simp add: start_server_def)
next
  assume z: "PPBRecord_count s = 0"
  let ?s = "insert_ppb (seed_loop 1 []) s"
  note st = start_server_seeds [OF z]
  have u: "users ?s = users s" by (simp add: insert_ppb_users)
  have "length (map ppb_licenseNumber (ppb ?s)) = 20"
    by (simp only: st(2)) (simp add: seeded_licenses_def)
  then have c: "PPBRecord_count ?s = 20" by (simp add: PPBRecord_count_def)
  then have again: "start_server ?s = Inr ?s" by (simp add: start_server_def)
  have "''PPB-1001'' \<in> set (map ppb_licenseNumber (ppb ?s))"
    by (simp only: st(2)) (simp add: seeded_licenses_def)
  then have k: "''PPB-1001'' \<in> ppb_licenseNumber ` set (ppb ?s)" by simp
  have su: "resp (post_signup \<lparr>req_name = Value n, req_email = Value e, req_role = Value ro,
                        req_walletAddress = Value w, req_licenseNumber = Value ''PPB-1001''\<rparr> ?s)
                  = \<lparr>code = 200,
                     payload = SuccessBody ''Registration pending verification by admin''\<rparr>
                \<and> resp (get_user_status w
                     (db (post_signup \<lparr>req_name = Value n, req_email = Value e, req_role = Value ro,
                        req_walletAddress = Value w, req_licenseNumber = Value ''PPB-1001''\<rparr> ?s)))
                  = \<lparr>code = 200, payload = StatusBody ''pending''\<rparr>"
    if "w \<noteq> [] \<and> w \<notin> walletAddress ` set (users s)" for w n e ro
  proof -
    from that u have 1: "w \<noteq> []" and 2: "w \<notin> walletAddress ` set (users ?s)" by simp_all
    show ?thesis by (rule signup_then_status [OF 1 2 k])
  qed
  show "\<exists>s'. start_server s = Inr s' \<and> users s' = users s \<and> PPBRecord_count s' = 20
           \<and> map ppb_licenseNumber (ppb s') = seeded_licenses
           \<and> start_server s' = Inr s'
           \<and> (\<forall>w n e ro. w \<noteq> [] \<and> w \<notin> walletAddress ` set (users s) \<longrightarrow>
                resp (post_signup \<lparr>req_name = Value n, req_email = Value e, req_role = Value ro,
                        req_walletAddress = Value w, req_licenseNumber = Value ''PPB-1001''\<rparr> s')
                  = \<lparr>code = 200,
                     payload = SuccessBody ''Registration pending verification by admin''\<rparr>
                \<and> resp (get_user_status w
                     (db (post_signup \<lparr>req_name = Value n, req_email = Value e, req_role = Value ro,
                        req_walletAddress = Value w, req_licenseNumber = Value ''PPB-1001''\<rparr> s')))
                  = \<lparr>code = 200, payload = StatusBody ''pending''\<rparr>)"
    using st u c again su by blast
qed

theorem startup_seeds_registry_witness:
  "\<exists>s'. start_server empty_store = Inr s' \<and> PPBRecord_count s' = 20
     \<and> map ppb_licenseNumber (ppb s') = seeded_licenses
     \<and> resp (post_signup \<lparr>req_name = Value ''Acme Pharma'', req_email = Value ''a@x.com'',
                req_role = Value 1, req_walletAddress = Value ''0xABC'',
                req_licenseNumber = Value ''PPB-1001''\<rparr> s')
         = \<lparr>code = 200, payload = SuccessBody ''Registration pending verification by admin''\<rparr>
     \<and> resp (get_user_status ''0xABC''
           (db (post_signup \<lparr>req_name = Value ''Acme Pharma'', req_email = Value ''a@x.com'',
                req_role = Value 1, req_walletAddress = Value ''0xABC'',
                req_licenseNumber = Value ''PPB-1001''\<rparr> s')))
         = \<lparr>code = 200, payload = StatusBody ''pending''\<rparr>"
proof -
  have 1: "PPBRecord_count empty_store = 0" by (simp add: PPBRecord_count_def empty_store_def)
  have 2: "''0xABC'' \<noteq> [] \<and> ''0xABC'' \<notin> walletAddress ` set (users empty_store)"
    by (simp add: empty_store_def)
  from startup_seeds_registry [of empty_store] 1 2 show ?thesis by blast
qed

section \<open>The invariant holds in every reachable store\<close>

lemma start_server_inv:
  assumes "store_inv s" and "start_server s = Inr s'"
  shows "store_inv s'"
proof -
  from assms(2) have "s' = s \<or> s' = insert_ppb (seed_loop 1 []) s"
    by (auto simp: start_server_def PPBRecord_bulkCreate_def simp del: One_nat_def
             split: if_splits)
  with assms(1) show ?thesis
    by (auto simp: store_inv_def insert_ppb_users simp del: One_nat_def)
qed

lemma reachable_inv: "reachable s \<Longrightarrow> store_inv s"
proof (induction rule: reachable.induct)
  case initial
  show ?case by (rule empty_store_inv)
next
  case (started s s')
  then show ?case by (blast intro: start_server_inv)
next
  case (signed_up s b)
  then show ?case by (simp add: signup_inv)
next
  case (approved s c w)
  then show ?case by (simp add: approve_inv)
next
  case (rejected s w)
  then show ?case by (simp add: reject_inv)
qed

end
